theory Spec2Isabelle
  imports Complex_Main
begin

section \<open>Potential fields of homogeneous spheres (fatiando.potential.sphere)\<close>

text \<open>
  A shallow embedding of \<^verbatim>\<open>src/fatiando/potential/sphere.py\<close>: the direction-cosine
  resolver \<^verbatim>\<open>_dircos\<close>, the total-field anomaly \<^verbatim>\<open>tf\<close> and the vertical gravity
  component \<^verbatim>\<open>gz\<close>, over a model of numpy arrays with shapes and broadcasting.
\<close>

subsection \<open>Numbers\<close>

text \<open>
  A Python or numpy float. Finite values are exact reals (rounding, overflow and
  underflow are left out); the two infinities and NaN are kept, with the IEEE 754 rules
  for them, because the evaluators divide by a distance that can be zero. Both zeros are
  \<open>Fin 0\<close>: the sign of a zero only shows in a division by it, and every divisor of this
  module is the literal \<^verbatim>\<open>3.\<close> or a power of a sum of squares, whose zero is \<open>+0\<close>.
\<close>

datatype float64 = Fin real | PInf | NInf | NaN

fun fneg :: "float64 \<Rightarrow> float64" where
  "fneg (Fin a) = Fin (- a)"
| "fneg PInf = NInf"
| "fneg NInf = PInf"
| "fneg NaN = NaN"

fun fadd :: "float64 \<Rightarrow> float64 \<Rightarrow> float64" where
  "fadd (Fin a) (Fin b) = Fin (a + b)"
| "fadd (Fin a) PInf = PInf"
| "fadd (Fin a) NInf = NInf"
| "fadd PInf (Fin b) = PInf"
| "fadd PInf PInf = PInf"
| "fadd PInf NInf = NaN"
| "fadd NInf (Fin b) = NInf"
| "fadd NInf NInf = NInf"
| "fadd NInf PInf = NaN"
| "fadd NaN y = NaN"
| "fadd x NaN = NaN"

definition fsub :: "float64 \<Rightarrow> float64 \<Rightarrow> float64" where
  "fsub u v = fadd u (fneg v)"

text \<open>The infinity whose sign is that of the real \<open>a\<close>, and NaN for \<open>a = 0\<close>
  (\<open>inf * 0\<close> and \<open>0 / 0\<close>).\<close>

definition signed_inf :: "real \<Rightarrow> float64" where
  "signed_inf a = (if 0 < a then PInf else if a < 0 then NInf else NaN)"

fun fmul :: "float64 \<Rightarrow> float64 \<Rightarrow> float64" where
  "fmul (Fin a) (Fin b) = Fin (a * b)"
| "fmul (Fin a) PInf = signed_inf a"
| "fmul (Fin a) NInf = signed_inf (- a)"
| "fmul PInf (Fin b) = signed_inf b"
| "fmul NInf (Fin b) = signed_inf (- b)"
| "fmul PInf PInf = PInf"
| "fmul PInf NInf = NInf"
| "fmul NInf PInf = NInf"
| "fmul NInf NInf = PInf"
| "fmul NaN y = NaN"
| "fmul x NaN = NaN"

text \<open>Division; a zero divisor is \<open>+0\<close> (see above), so \<open>a / 0\<close> is the infinity of the
  sign of \<open>a\<close>, or NaN when \<open>a\<close> is zero. numpy warns and goes on: nothing is raised.\<close>

fun fdiv :: "float64 \<Rightarrow> float64 \<Rightarrow> float64" where
  "fdiv (Fin a) (Fin b) = (if b = 0 then signed_inf a else Fin (a / b))"
| "fdiv (Fin a) PInf = Fin 0"
| "fdiv (Fin a) NInf = Fin 0"
| "fdiv PInf (Fin b) = (if b < 0 then NInf else PInf)"
| "fdiv NInf (Fin b) = (if b < 0 then PInf else NInf)"
| "fdiv PInf PInf = NaN"
| "fdiv PInf NInf = NaN"
| "fdiv NInf PInf = NaN"
| "fdiv NInf NInf = NaN"
| "fdiv NaN y = NaN"
| "fdiv x NaN = NaN"

text \<open>\<^verbatim>\<open>x**n\<close> for an integer literal \<open>n\<close> (the module uses 2 and 3). On a finite number
  the power is the exact real: it does not underflow to zero or overflow to infinity as a
  double does, so whether an output is finite is not something to read off this model.\<close>

fun fpow :: "float64 \<Rightarrow> nat \<Rightarrow> float64" where
  "fpow (Fin a) n = Fin (a ^ n)"
| "fpow PInf n = (if n = 0 then Fin 1 else PInf)"
| "fpow NInf n = (if n = 0 then Fin 1 else if even n then PInf else NInf)"
| "fpow NaN n = (if n = 0 then Fin 1 else NaN)"

text \<open>\<^verbatim>\<open>x**p\<close> for a positive exponent that is not an integer (the module uses 2.5 and
  1.5): NaN on a negative base, \<open>0\<close> at \<open>0\<close>, and exact like \<open>fpow\<close> elsewhere.\<close>

fun fpowr :: "float64 \<Rightarrow> real \<Rightarrow> float64" where
  "fpowr (Fin a) p = (if a < 0 then NaN else Fin (a powr p))"
| "fpowr PInf p = PInf"
| "fpowr NInf p = PInf"
| "fpowr NaN p = NaN"

text \<open>\<^verbatim>\<open>numpy.cos\<close> and \<^verbatim>\<open>numpy.sin\<close>: NaN (with a warning) outside the finite numbers.\<close>

fun fcos :: "float64 \<Rightarrow> float64" where
  "fcos (Fin a) = Fin (cos a)"
| "fcos PInf = NaN"
| "fcos NInf = NaN"
| "fcos NaN = NaN"

fun fsin :: "float64 \<Rightarrow> float64" where
  "fsin (Fin a) = Fin (sin a)"
| "fsin PInf = NaN"
| "fsin NInf = NaN"
| "fsin NaN = NaN"

subsection \<open>Arrays\<close>

text \<open>
  A numpy array of floats: its shape and its elements in row-major order. An array
  is well formed when it has as many elements as its shape says.
\<close>

record ndarray =
  shape :: "nat list"
  data :: "float64 list"

definition wf_array :: "ndarray \<Rightarrow> bool" where
  "wf_array a = (length (data a) = prod_list (shape a))"

text \<open>
  The two errors a call can end in. Both are Python's \<^verbatim>\<open>ValueError\<close>:
  \<open>ShapeMismatch\<close> is the one the evaluators raise themselves
  (\<^verbatim>\<open>"Input arrays xp, yp, and zp must have same shape!"\<close>), \<open>BroadcastError\<close> the one
  numpy raises when an elementwise operation meets two shapes it cannot broadcast
  (\<^verbatim>\<open>"operands could not be broadcast together"\<close>).
\<close>

datatype error = ShapeMismatch | BroadcastError

type_synonym result = "error + ndarray"

text \<open>
  numpy's broadcasting, on shapes read from the last axis to the first: two axes are
  compatible when they are equal or one of them is 1; the shorter shape is padded with
  leading 1s.
\<close>

fun broadcast_rev :: "nat list \<Rightarrow> nat list \<Rightarrow> nat list option" where
  "broadcast_rev [] ts = Some ts"
| "broadcast_rev (s # ss) [] = Some (s # ss)"
| "broadcast_rev (s # ss) (t # ts) =
     (if s = t \<or> t = 1 then map_option ((#) s) (broadcast_rev ss ts)
      else if s = 1 then map_option ((#) t) (broadcast_rev ss ts)
      else None)"

definition broadcast_shapes :: "nat list \<Rightarrow> nat list \<Rightarrow> nat list option" where
  "broadcast_shapes s t = map_option rev (broadcast_rev (rev s) (rev t))"

text \<open>
  The position, in an operand of (reversed) shape \<open>ss\<close>, of the element that stands at
  position \<open>i\<close> of the result of (reversed) shape \<open>ts\<close>: along an axis of length 1 the
  operand is repeated, and it has no index along the axes it lacks.
\<close>

fun source_index :: "nat list \<Rightarrow> nat list \<Rightarrow> nat \<Rightarrow> nat" where
  "source_index [] ts i = 0"
| "source_index (s # ss) [] i = 0"
| "source_index (s # ss) (t # ts) i =
     (if s = 1 then 0 else i mod t) + s * source_index ss ts (i div t)"

definition broadcast_data :: "ndarray \<Rightarrow> nat list \<Rightarrow> float64 list" where
  "broadcast_data a ts =
     map (\<lambda>i. data a ! source_index (rev (shape a)) (rev ts) i) [0..<prod_list ts]"

text \<open>An elementwise operation of two arrays.\<close>

definition elementwise :: "(float64 \<Rightarrow> float64 \<Rightarrow> float64) \<Rightarrow> ndarray \<Rightarrow> ndarray \<Rightarrow> result" where
  "elementwise f a b =
     (case broadcast_shapes (shape a) (shape b) of
        None \<Rightarrow> Inl BroadcastError
      | Some ts \<Rightarrow>
          Inr \<lparr>shape = ts, data = map2 f (broadcast_data a ts) (broadcast_data b ts)\<rparr>)"

text \<open>An operation of an array and a scalar, or of one array.\<close>

definition amap :: "(float64 \<Rightarrow> float64) \<Rightarrow> ndarray \<Rightarrow> ndarray" where
  "amap f a = \<lparr>shape = shape a, data = map f (data a)\<rparr>"

text \<open>\<^verbatim>\<open>numpy.zeros_like\<close>.\<close>

definition zeros_like :: "ndarray \<Rightarrow> ndarray" where
  "zeros_like a = \<lparr>shape = shape a, data = replicate (prod_list (shape a)) (Fin 0)\<rparr>"

subsection \<open>Array expressions that can fail\<close>

text \<open>
  An expression over arrays either has an array as its value or has raised; an operation
  on a raised operand raises the same error (the left operand is evaluated first).
\<close>

definition lift2 :: "(float64 \<Rightarrow> float64 \<Rightarrow> float64) \<Rightarrow> result \<Rightarrow> result \<Rightarrow> result" where
  "lift2 f ra rb =
     (case ra of
        Inl e \<Rightarrow> Inl e
      | Inr a \<Rightarrow> (case rb of Inl e \<Rightarrow> Inl e | Inr b \<Rightarrow> elementwise f a b))"

definition lift1 :: "(float64 \<Rightarrow> float64) \<Rightarrow> result \<Rightarrow> result" where
  "lift1 f ra = (case ra of Inl e \<Rightarrow> Inl e | Inr a \<Rightarrow> Inr (amap f a))"

text \<open>\<^verbatim>\<open>a + b\<close>, \<^verbatim>\<open>a - b\<close>, \<^verbatim>\<open>a * b\<close>, \<^verbatim>\<open>a / b\<close> of two arrays.\<close>

definition arr_add :: "result \<Rightarrow> result \<Rightarrow> result" where
  "arr_add = lift2 fadd"

definition arr_sub :: "result \<Rightarrow> result \<Rightarrow> result" where
  "arr_sub = lift2 fsub"

definition arr_mul :: "result \<Rightarrow> result \<Rightarrow> result" where
  "arr_mul = lift2 fmul"

definition arr_div :: "result \<Rightarrow> result \<Rightarrow> result" where
  "arr_div = lift2 fdiv"

text \<open>\<^verbatim>\<open>c * a\<close>, \<^verbatim>\<open>a * c\<close> and \<^verbatim>\<open>a - c\<close> of an array \<open>a\<close> and a scalar \<open>c\<close>;
  \<^verbatim>\<open>a**n\<close> and \<^verbatim>\<open>a**p\<close>.\<close>

definition scal_mul :: "float64 \<Rightarrow> result \<Rightarrow> result" where
  "scal_mul c = lift1 (\<lambda>v. fmul c v)"

definition mul_scal :: "result \<Rightarrow> float64 \<Rightarrow> result" where
  "mul_scal ra c = lift1 (\<lambda>v. fmul v c) ra"

definition sub_scal :: "ndarray \<Rightarrow> float64 \<Rightarrow> result" where
  "sub_scal a c = Inr (amap (\<lambda>v. fsub v c) a)"

definition arr_pow :: "result \<Rightarrow> nat \<Rightarrow> result" where
  "arr_pow ra n = lift1 (\<lambda>v. fpow v n) ra"

definition arr_powr :: "result \<Rightarrow> real \<Rightarrow> result" where
  "arr_powr ra p = lift1 (\<lambda>v. fpowr v p) ra"

subsection \<open>Spheres and constants\<close>

text \<open>
  Modelled from the spec: the class \<^verbatim>\<open>fatiando.mesher.ddd.Sphere\<close> is not among the
  sources. A source is an entity with a centre \<^verbatim>\<open>x, y, z\<close>, a \<^verbatim>\<open>radius\<close> and a property
  lookup \<^verbatim>\<open>props\<close> from names to values. An entry of the list of sources is a sphere or
  \<^verbatim>\<open>None\<close>.
\<close>

record sphere =
  sphere_x :: float64
  sphere_y :: float64
  sphere_z :: float64
  sphere_radius :: float64
  sphere_props :: "string \<rightharpoonup> float64"

text \<open>
  The module \<^verbatim>\<open>fatiando.constants\<close> is not among the sources either: the four constants
  the evaluators read from it are parameters, finite numbers of any value.
\<close>

record constants =
  CM :: real
  T2NT :: real
  G :: real
  SI2MGAL :: real

subsection \<open>The direction-cosine resolver\<close>

definition dircos :: "float64 \<Rightarrow> float64 \<Rightarrow> float64 \<times> float64 \<times> float64" where
  "dircos inc dec =
     (let d2r = fdiv (Fin pi) (Fin 180) in
        (fmul (fcos (fmul d2r inc)) (fcos (fmul d2r dec)),
         fmul (fcos (fmul d2r inc)) (fsin (fmul d2r dec)),
         fsin (fmul d2r inc)))"

subsection \<open>The total-field anomaly\<close>

text \<open>
  The body of the loop of \<^verbatim>\<open>tf\<close> for a sphere that has a magnetization \<open>mag\<close>:
  the new value of the accumulator \<^verbatim>\<open>tf\<close>, from its old value \<open>tf0\<close>.
\<close>

definition tf_sphere ::
  "float64 \<times> float64 \<times> float64 \<Rightarrow> ndarray \<Rightarrow> ndarray \<Rightarrow> ndarray \<Rightarrow> sphere \<Rightarrow> float64 \<Rightarrow>
     ndarray \<Rightarrow> result" where
  "tf_sphere f xp yp zp s mag tf0 =
     (let (fx, fy, fz) = f;
          radius = sphere_radius s;
          (mx, my, mz) =
            (case (sphere_props s ''inclination'', sphere_props s ''declination'') of
               (Some inclination, Some declination) \<Rightarrow> dircos inclination declination
             | _ \<Rightarrow> (fx, fy, fz));
          x = sub_scal xp (sphere_x s);
          y = sub_scal yp (sphere_y s);
          z = sub_scal zp (sphere_z s);
          dotprod = arr_add (arr_add (scal_mul mx x) (scal_mul my y)) (scal_mul mz z);
          r_sqr = arr_add (arr_add (arr_pow x 2) (arr_pow y 2)) (arr_pow z 2);
          r5 = arr_powr r_sqr 2.5;
          moment = fdiv (fmul (fmul (fmul mag (Fin 4)) (Fin pi)) (fpow radius 3)) (Fin 3);
          bx = arr_div (scal_mul moment
                 (arr_sub (arr_mul (scal_mul (Fin 3) dotprod) x) (mul_scal r_sqr mx))) r5;
          by = arr_div (scal_mul moment
                 (arr_sub (arr_mul (scal_mul (Fin 3) dotprod) y) (mul_scal r_sqr my))) r5;
          bz = arr_div (scal_mul moment
                 (arr_sub (arr_mul (scal_mul (Fin 3) dotprod) z) (mul_scal r_sqr mz))) r5
      in arr_add (Inr tf0)
           (arr_add (arr_add (scal_mul fx bx) (scal_mul fy by)) (scal_mul fz bz)))"

text \<open>The loop over the spheres: \<^verbatim>\<open>None\<close> and a sphere without a magnetization are
  passed over; an error ends the call.\<close>

fun tf_loop ::
  "float64 \<times> float64 \<times> float64 \<Rightarrow> ndarray \<Rightarrow> ndarray \<Rightarrow> ndarray \<Rightarrow> sphere option list \<Rightarrow>
     ndarray \<Rightarrow> result" where
  "tf_loop f xp yp zp [] tf0 = Inr tf0"
| "tf_loop f xp yp zp (None # spheres) tf0 = tf_loop f xp yp zp spheres tf0"
| "tf_loop f xp yp zp (Some s # spheres) tf0 =
     (case sphere_props s ''magnetization'' of
        None \<Rightarrow> tf_loop f xp yp zp spheres tf0
      | Some mag \<Rightarrow>
          (case tf_sphere f xp yp zp s mag tf0 of
             Inl e \<Rightarrow> Inl e
           | Inr tf1 \<Rightarrow> tf_loop f xp yp zp spheres tf1))"

definition tf ::
  "constants \<Rightarrow> ndarray \<Rightarrow> ndarray \<Rightarrow> ndarray \<Rightarrow> sphere option list \<Rightarrow> float64 \<Rightarrow> float64 \<Rightarrow>
     result" where
  "tf K xp yp zp spheres inc dec =
     (if shape xp \<noteq> shape yp \<and> shape yp \<noteq> shape zp then Inl ShapeMismatch
      else scal_mul (fmul (Fin (CM K)) (Fin (T2NT K)))
             (tf_loop (dircos inc dec) xp yp zp spheres (zeros_like xp)))"

subsection \<open>The vertical component of gravity\<close>

definition gz_sphere :: "ndarray \<Rightarrow> ndarray \<Rightarrow> ndarray \<Rightarrow> sphere \<Rightarrow> float64 \<Rightarrow> ndarray \<Rightarrow> result" where
  "gz_sphere xp yp zp s density res0 =
     (let radius = sphere_radius s;
          x = sub_scal xp (sphere_x s);
          y = sub_scal yp (sphere_y s);
          z = sub_scal zp (sphere_z s);
          r_cb = arr_powr (arr_add (arr_add (arr_pow x 2) (arr_pow y 2)) (arr_pow z 2)) 1.5;
          mass = fdiv (fmul (fmul (fmul density (Fin 4)) (Fin pi)) (fpow radius 3)) (Fin 3)
      in arr_add (Inr res0) (arr_div (scal_mul mass z) r_cb))"

fun gz_loop :: "ndarray \<Rightarrow> ndarray \<Rightarrow> ndarray \<Rightarrow> sphere option list \<Rightarrow> ndarray \<Rightarrow> result" where
  "gz_loop xp yp zp [] res0 = Inr res0"
| "gz_loop xp yp zp (None # spheres) res0 = gz_loop xp yp zp spheres res0"
| "gz_loop xp yp zp (Some s # spheres) res0 =
     (case sphere_props s ''density'' of
        None \<Rightarrow> gz_loop xp yp zp spheres res0
      | Some density \<Rightarrow>
          (case gz_sphere xp yp zp s density res0 of
             Inl e \<Rightarrow> Inl e
           | Inr res1 \<Rightarrow> gz_loop xp yp zp spheres res1))"

definition gz :: "constants \<Rightarrow> ndarray \<Rightarrow> ndarray \<Rightarrow> ndarray \<Rightarrow> sphere option list \<Rightarrow> result" where
  "gz K xp yp zp spheres =
     (if shape xp \<noteq> shape yp \<and> shape yp \<noteq> shape zp then Inl ShapeMismatch
      else scal_mul (fmul (Fin (G K)) (Fin (SI2MGAL K))) (gz_loop xp yp zp spheres (zeros_like xp)))"

section \<open>The fields as the specification words them\<close>

text \<open>
  The specification describes both fields point by point. The definitions of this section
  follow its words; they are what the evaluators above are compared with.
\<close>

type_synonym vec3 = "float64 \<times> float64 \<times> float64"

text \<open>The sources that contribute to a field, in the order of the list, each with the
  value of the property the field needs: the entries that are not null and have it.\<close>

fun contributing :: "string \<Rightarrow> sphere option list \<Rightarrow> (sphere \<times> float64) list" where
  "contributing name [] = []"
| "contributing name (None # spheres) = contributing name spheres"
| "contributing name (Some s # spheres) =
     (case sphere_props s name of
        None \<Rightarrow> contributing name spheres
      | Some v \<Rightarrow> (s, v) # contributing name spheres)"

definition contributes :: "string \<Rightarrow> sphere option \<Rightarrow> bool" where
  "contributes name e = (case e of None \<Rightarrow> False | Some s \<Rightarrow> sphere_props s name \<noteq> None)"

text \<open>\<open>q \<sqdot> (4/3) \<sqdot> \<pi> \<sqdot> radius\<^sup>3\<close>: the dipole moment of a magnetization \<open>q\<close>, the mass of
  a density \<open>q\<close>.\<close>

definition sphere_total :: "float64 \<Rightarrow> float64 \<Rightarrow> float64" where
  "sphere_total q radius = fmul q (fmul (fmul (Fin (4 / 3)) (Fin pi)) (fpow radius 3))"

text \<open>The direction of a source's magnetization: its own, when its properties have both an
  inclination and a declination, and the ambient direction \<open>f\<close> otherwise.\<close>

definition magnetization_direction :: "sphere \<Rightarrow> vec3 \<Rightarrow> vec3" where
  "magnetization_direction s f =
     (case sphere_props s ''inclination'' of
        None \<Rightarrow> f
      | Some inclination \<Rightarrow>
          (case sphere_props s ''declination'' of
             None \<Rightarrow> f
           | Some declination \<Rightarrow> dircos inclination declination))"

text \<open>The field of a dipole of moment \<open>moment\<close> along the unit vector \<open>m\<close>, at the point
  \<open>(x, y, z)\<close> of the frame centred on it, projected on the unit vector \<open>f\<close>.\<close>

definition dipole_anomaly :: "vec3 \<Rightarrow> vec3 \<Rightarrow> float64 \<Rightarrow> vec3 \<Rightarrow> float64" where
  "dipole_anomaly f m moment p =
     (let (fx, fy, fz) = f;
          (mx, my, mz) = m;
          (x, y, z) = p;
          dot = fadd (fadd (fmul mx x) (fmul my y)) (fmul mz z);
          r2 = fadd (fadd (fpow x 2) (fpow y 2)) (fpow z 2);
          bx = fdiv (fmul moment (fsub (fmul (fmul (Fin 3) dot) x) (fmul r2 mx))) (fpowr r2 2.5);
          by = fdiv (fmul moment (fsub (fmul (fmul (Fin 3) dot) y) (fmul r2 my))) (fpowr r2 2.5);
          bz = fdiv (fmul moment (fsub (fmul (fmul (Fin 3) dot) z) (fmul r2 mz))) (fpowr r2 2.5)
      in fadd (fadd (fmul fx bx) (fmul fy by)) (fmul fz bz))"

text \<open>What one source of magnetization \<open>mag\<close> adds to the anomaly at the observation
  point \<open>p\<close>, and the anomaly there: the sum over the contributing sources, times the
  product of the two constants.\<close>

definition centred :: "sphere \<Rightarrow> vec3 \<Rightarrow> vec3" where
  "centred s p =
     (let (px, py, pz) = p in (fsub px (sphere_x s), fsub py (sphere_y s), fsub pz (sphere_z s)))"

definition tf_contribution :: "vec3 \<Rightarrow> sphere \<Rightarrow> float64 \<Rightarrow> vec3 \<Rightarrow> float64" where
  "tf_contribution f s mag p =
     dipole_anomaly f (magnetization_direction s f) (sphere_total mag (sphere_radius s))
       (centred s p)"

definition tf_point :: "constants \<Rightarrow> sphere option list \<Rightarrow> float64 \<Rightarrow> float64 \<Rightarrow> vec3 \<Rightarrow> float64" where
  "tf_point K spheres inc dec p =
     fmul (Fin (CM K * T2NT K))
       (foldl fadd (Fin 0)
          (map (\<lambda>(s, mag). tf_contribution (dircos inc dec) s mag p)
             (contributing ''magnetization'' spheres)))"

text \<open>The same for gravity: \<open>mass \<sqdot> z / r\<^sup>3\<close>.\<close>

definition gz_contribution :: "sphere \<Rightarrow> float64 \<Rightarrow> vec3 \<Rightarrow> float64" where
  "gz_contribution s density p =
     (let (x, y, z) = centred s p;
          r3 = fpowr (fadd (fadd (fpow x 2) (fpow y 2)) (fpow z 2)) 1.5
      in fdiv (fmul (sphere_total density (sphere_radius s)) z) r3)"

definition gz_point :: "constants \<Rightarrow> sphere option list \<Rightarrow> vec3 \<Rightarrow> float64" where
  "gz_point K spheres p =
     fmul (Fin (G K * SI2MGAL K))
       (foldl fadd (Fin 0)
          (map (\<lambda>(s, density). gz_contribution s density p) (contributing ''density'' spheres)))"

text \<open>The array, of the shape of \<open>xp\<close>, whose element at each position is \<open>g\<close> of the
  observation point at that position.\<close>

definition pointwise :: "(vec3 \<Rightarrow> float64) \<Rightarrow> ndarray \<Rightarrow> ndarray \<Rightarrow> ndarray \<Rightarrow> ndarray" where
  "pointwise g xp yp zp =
     \<lparr>shape = shape xp,
      data = map (\<lambda>i. g (data xp ! i, data yp ! i, data zp ! i)) [0..<prod_list (shape xp)]\<rparr>"

subsection \<open>Degenerate geometry\<close>

text \<open>The observation point at position \<open>i\<close> of the arrays.\<close>

definition point_at :: "ndarray \<Rightarrow> ndarray \<Rightarrow> ndarray \<Rightarrow> nat \<Rightarrow> vec3" where
  "point_at xp yp zp i = (data xp ! i, data yp ! i, data zp ! i)"

text \<open>The point is the centre of the source: its coordinates in the frame of the source are
  all zero, so that \<open>r\<^sup>2 = 0\<close>. It is degenerate for a field when it is the centre of a source
  that contributes to the field.\<close>

definition at_centre :: "sphere \<Rightarrow> vec3 \<Rightarrow> bool" where
  "at_centre s p = (centred s p = (Fin 0, Fin 0, Fin 0))"

definition degenerate :: "string \<Rightarrow> sphere option list \<Rightarrow> vec3 \<Rightarrow> bool" where
  "degenerate name spheres p = list_ex (\<lambda>(s, v). at_centre s p) (contributing name spheres)"

section \<open>Properties\<close>

subsection \<open>Arrays of one shape\<close>

text \<open>
  Between well-formed arrays of one shape nothing is broadcast: an elementwise operation
  works position by position. The lemmas below write such an array as the table of a
  function of the position.
\<close>

lemma source_index_same: "i < prod_list ss \<Longrightarrow> source_index ss ss i = i"
proof (induction ss arbitrary: i)
  case Nil
  then show ?case by simp
next
  case (Cons s ss)
  then have "0 < s" by (cases "s = 0") auto
  with Cons.prems have "i div s < prod_list ss"
    by (simp add: less_mult_imp_div_less mult.commute)
  then have "source_index ss ss (i div s) = i div s" by (rule Cons.IH)
  then show ?case by simp
qed

lemma broadcast_rev_same: "broadcast_rev ss ss = Some ss"
  by (induction ss) simp_all

lemma broadcast_shapes_same: "broadcast_shapes s s = Some s"
  by (simp add: broadcast_shapes_def broadcast_rev_same)

lemma broadcast_data_same:
  assumes "length (data a) = prod_list (shape a)"
  shows "broadcast_data a (shape a) = data a"
proof -
  have "map (\<lambda>i. data a ! source_index (rev (shape a)) (rev (shape a)) i) [0..<prod_list (shape a)]
      = map (\<lambda>i. data a ! i) [0..<prod_list (shape a)]"
    by (rule map_cong) (simp_all add: source_index_same)
  also have "\<dots> = data a"
    using assms map_nth [of "data a"] by simp
  finally show ?thesis by (simp add: broadcast_data_def)
qed

lemma map2_tabulated: "map2 f (map g xs) (map h xs) = map (\<lambda>i. f (g i) (h i)) xs"
  by (induction xs) simp_all

lemma elementwise_tab:
  "elementwise f \<lparr>shape = s, data = map g [0..<prod_list s]\<rparr> \<lparr>shape = s, data = map h [0..<prod_list s]\<rparr>
     = Inr \<lparr>shape = s, data = map (\<lambda>i. f (g i) (h i)) [0..<prod_list s]\<rparr>"
proof -
  let ?a = "\<lparr>shape = s, data = map g [0..<prod_list s]\<rparr>"
  let ?b = "\<lparr>shape = s, data = map h [0..<prod_list s]\<rparr>"
  have a: "broadcast_data ?a s = map g [0..<prod_list s]"
    using broadcast_data_same [of ?a] by simp
  have b: "broadcast_data ?b s = map h [0..<prod_list s]"
    using broadcast_data_same [of ?b] by simp
  show ?thesis
    by (simp add: elementwise_def broadcast_shapes_same a b map2_tabulated)
qed

lemma lift2_tab:
  "lift2 f (Inr \<lparr>shape = s, data = map g [0..<prod_list s]\<rparr>) (Inr \<lparr>shape = s, data = map h [0..<prod_list s]\<rparr>)
     = Inr \<lparr>shape = s, data = map (\<lambda>i. f (g i) (h i)) [0..<prod_list s]\<rparr>"
  by (simp add: lift2_def elementwise_tab)

lemma lift1_tab:
  "lift1 f (Inr \<lparr>shape = s, data = map g [0..<prod_list s]\<rparr>)
     = Inr \<lparr>shape = s, data = map (\<lambda>i. f (g i)) [0..<prod_list s]\<rparr>"
  by (simp add: lift1_def amap_def)

lemma sub_scal_tab:
  "sub_scal \<lparr>shape = s, data = map g [0..<prod_list s]\<rparr> c
     = Inr \<lparr>shape = s, data = map (\<lambda>i. fsub (g i) c) [0..<prod_list s]\<rparr>"
  by (simp add: sub_scal_def amap_def)

lemmas tab_simps = lift2_tab lift1_tab sub_scal_tab arr_add_def arr_sub_def arr_mul_def arr_div_def
  scal_mul_def mul_scal_def arr_pow_def arr_powr_def

lemma wf_array_tab:
  assumes "wf_array a"
  shows "a = \<lparr>shape = shape a, data = map (\<lambda>i. data a ! i) [0..<prod_list (shape a)]\<rparr>"
proof -
  have "map (\<lambda>i. data a ! i) [0..<prod_list (shape a)] = data a"
    using assms map_nth [of "data a"] by (simp add: wf_array_def)
  then show ?thesis by simp
qed

lemma sphere_total_code:
  "fdiv (fmul (fmul (fmul q (Fin 4)) (Fin pi)) (fpow radius 3)) (Fin 3) = sphere_total q radius"
  apply (cases q; cases radius)
  apply (auto simp: sphere_total_def signed_inf_def zero_less_mult_iff mult_less_0_iff split: if_splits)
  done

subsection \<open>The evaluators, point by point\<close>

lemma tf_sphere_tab:
  "tf_sphere f \<lparr>shape = s, data = map gx [0..<prod_list s]\<rparr>
       \<lparr>shape = s, data = map gy [0..<prod_list s]\<rparr>
       \<lparr>shape = s, data = map gz' [0..<prod_list s]\<rparr> sp mag
       \<lparr>shape = s, data = map a [0..<prod_list s]\<rparr>
     = Inr \<lparr>shape = s,
            data = map (\<lambda>i. fadd (a i) (tf_contribution f sp mag (gx i, gy i, gz' i)))
                     [0..<prod_list s]\<rparr>"
proof -
  obtain fx fy fz where f: "f = (fx, fy, fz)" by (cases f)
  obtain mx my mz where m: "magnetization_direction sp f = (mx, my, mz)"
    by (cases "magnetization_direction sp f")
  have dir: "(case sphere_props sp ''inclination'' of
                None \<Rightarrow> (fx, fy, fz)
              | Some inclination \<Rightarrow>
                  (case sphere_props sp ''declination'' of
                     None \<Rightarrow> (fx, fy, fz)
                   | Some declination \<Rightarrow> dircos inclination declination)) = (mx, my, mz)"
    using m by (simp add: magnetization_direction_def f)
  show ?thesis
    unfolding tf_sphere_def f Let_def
    by (simp add: tab_simps sphere_total_code tf_contribution_def dipole_anomaly_def
        centred_def m [unfolded f] dir Let_def)
qed

lemma gz_sphere_tab:
  "gz_sphere \<lparr>shape = s, data = map gx [0..<prod_list s]\<rparr>
       \<lparr>shape = s, data = map gy [0..<prod_list s]\<rparr>
       \<lparr>shape = s, data = map gz' [0..<prod_list s]\<rparr> sp density
       \<lparr>shape = s, data = map a [0..<prod_list s]\<rparr>
     = Inr \<lparr>shape = s,
            data = map (\<lambda>i. fadd (a i) (gz_contribution sp density (gx i, gy i, gz' i)))
                     [0..<prod_list s]\<rparr>"
  unfolding gz_sphere_def Let_def
  by (simp add: tab_simps sphere_total_code gz_contribution_def centred_def)

lemma tf_loop_tab:
  "tf_loop f \<lparr>shape = s, data = map gx [0..<prod_list s]\<rparr>
       \<lparr>shape = s, data = map gy [0..<prod_list s]\<rparr>
       \<lparr>shape = s, data = map gz' [0..<prod_list s]\<rparr> spheres
       \<lparr>shape = s, data = map a [0..<prod_list s]\<rparr>
     = Inr \<lparr>shape = s,
            data = map (\<lambda>i. foldl fadd (a i)
                            (map (\<lambda>(sp, mag). tf_contribution f sp mag (gx i, gy i, gz' i))
                               (contributing ''magnetization'' spheres)))
                     [0..<prod_list s]\<rparr>"
proof (induction spheres arbitrary: a)
  case Nil
  show ?case by simp
next
  case (Cons e spheres)
  show ?case
  proof (cases e)
    case None
    then show ?thesis by (simp add: Cons.IH)
  next
    case (Some sp)
    show ?thesis
    proof (cases "sphere_props sp ''magnetization''")
      case None
      with Some show ?thesis by (simp add: Cons.IH)
    next
      case (Some mag)
      with \<open>e = Some sp\<close> show ?thesis by (simp add: tf_sphere_tab Cons.IH)
    qed
  qed
qed

lemma gz_loop_tab:
  "gz_loop \<lparr>shape = s, data = map gx [0..<prod_list s]\<rparr>
       \<lparr>shape = s, data = map gy [0..<prod_list s]\<rparr>
       \<lparr>shape = s, data = map gz' [0..<prod_list s]\<rparr> spheres
       \<lparr>shape = s, data = map a [0..<prod_list s]\<rparr>
     = Inr \<lparr>shape = s,
            data = map (\<lambda>i. foldl fadd (a i)
                            (map (\<lambda>(sp, density). gz_contribution sp density (gx i, gy i, gz' i))
                               (contributing ''density'' spheres)))
                     [0..<prod_list s]\<rparr>"
proof (induction spheres arbitrary: a)
  case Nil
  show ?case by simp
next
  case (Cons e spheres)
  show ?case
  proof (cases e)
    case None
    then show ?thesis by (simp add: Cons.IH)
  next
    case (Some sp)
    show ?thesis
    proof (cases "sphere_props sp ''density''")
      case None
      with Some show ?thesis by (simp add: Cons.IH)
    next
      case (Some density)
      with \<open>e = Some sp\<close> show ?thesis by (simp add: gz_sphere_tab Cons.IH)
    qed
  qed
qed

lemma zeros_like_tab:
  "zeros_like \<lparr>shape = s, data = d\<rparr> = \<lparr>shape = s, data = map (\<lambda>i. Fin 0) [0..<prod_list s]\<rparr>"
  by (simp add: zeros_like_def map_replicate_const)

lemma tabulated_arrays:
  assumes "wf_array xp" "wf_array yp" "wf_array zp"
    and "shape xp = shape yp" "shape yp = shape zp"
  obtains s gx gy gz' where
    "xp = \<lparr>shape = s, data = map gx [0..<prod_list s]\<rparr>"
    "yp = \<lparr>shape = s, data = map gy [0..<prod_list s]\<rparr>"
    "zp = \<lparr>shape = s, data = map gz' [0..<prod_list s]\<rparr>"
proof
  show "xp = \<lparr>shape = shape xp, data = map (\<lambda>i. data xp ! i) [0..<prod_list (shape xp)]\<rparr>"
    using wf_array_tab [OF assms(1)] .
  show "yp = \<lparr>shape = shape xp, data = map (\<lambda>i. data yp ! i) [0..<prod_list (shape xp)]\<rparr>"
    using wf_array_tab [OF assms(2)] assms(4) by simp
  show "zp = \<lparr>shape = shape xp, data = map (\<lambda>i. data zp ! i) [0..<prod_list (shape xp)]\<rparr>"
    using wf_array_tab [OF assms(3)] assms(4,5) by simp
qed

lemma pointwise_tab:
  "pointwise g \<lparr>shape = s, data = map gx [0..<prod_list s]\<rparr>
       \<lparr>shape = s, data = map gy [0..<prod_list s]\<rparr>
       \<lparr>shape = s, data = map gz' [0..<prod_list s]\<rparr>
     = \<lparr>shape = s, data = map (\<lambda>i. g (gx i, gy i, gz' i)) [0..<prod_list s]\<rparr>"
  by (simp add: pointwise_def cong: map_cong)

lemma tf_closed_form:
  assumes "wf_array xp" "wf_array yp" "wf_array zp"
    and "shape xp = shape yp" "shape yp = shape zp"
  shows "tf K xp yp zp spheres inc dec = Inr (pointwise (tf_point K spheres inc dec) xp yp zp)"
proof -
  from assms obtain s gx gy gz' where tab:
    "xp = \<lparr>shape = s, data = map gx [0..<prod_list s]\<rparr>"
    "yp = \<lparr>shape = s, data = map gy [0..<prod_list s]\<rparr>"
    "zp = \<lparr>shape = s, data = map gz' [0..<prod_list s]\<rparr>"
    by (rule tabulated_arrays)
  show ?thesis
    unfolding tab pointwise_tab
    by (simp add: tf_def zeros_like_tab tf_loop_tab scal_mul_def lift1_tab tf_point_def)
qed

lemma gz_closed_form:
  assumes "wf_array xp" "wf_array yp" "wf_array zp"
    and "shape xp = shape yp" "shape yp = shape zp"
  shows "gz K xp yp zp spheres = Inr (pointwise (gz_point K spheres) xp yp zp)"
proof -
  from assms obtain s gx gy gz' where tab:
    "xp = \<lparr>shape = s, data = map gx [0..<prod_list s]\<rparr>"
    "yp = \<lparr>shape = s, data = map gy [0..<prod_list s]\<rparr>"
    "zp = \<lparr>shape = s, data = map gz' [0..<prod_list s]\<rparr>"
    by (rule tabulated_arrays)
  show ?thesis
    unfolding tab pointwise_tab
    by (simp add: gz_def zeros_like_tab gz_loop_tab scal_mul_def lift1_tab gz_point_def)
qed

subsection \<open>The direction-cosine resolver\<close>

lemma dircos_Fin:
  "dircos (Fin inc) (Fin dec) =
     (Fin (cos (inc * pi / 180) * cos (dec * pi / 180)),
      Fin (cos (inc * pi / 180) * sin (dec * pi / 180)),
      Fin (sin (inc * pi / 180)))"
  by (simp add: dircos_def mult.commute)

lemma unit_length:
  fixes a b :: real
  shows "(cos a * cos b)\<^sup>2 + (cos a * sin b)\<^sup>2 + (sin a)\<^sup>2 = 1"
proof -
  have "(cos a * cos b)\<^sup>2 + (cos a * sin b)\<^sup>2 + (sin a)\<^sup>2
      = (cos a)\<^sup>2 * ((cos b)\<^sup>2 + (sin b)\<^sup>2) + (sin a)\<^sup>2"
    by (simp only: power_mult_distrib distrib_left)
  also have "\<dots> = (cos a)\<^sup>2 + (sin a)\<^sup>2"
    by (simp only: sin_cos_squared_add2 mult_1_right)
  also have "\<dots> = 1"
    by (rule sin_cos_squared_add2)
  finally show ?thesis .
qed

text \<open>
  Claim C5. For every inclination \<open>inc\<close> and declination \<open>dec\<close> in degrees, \<^verbatim>\<open>_dircos\<close>
  returns the vector \<open>(cos inc' \<sqdot> cos dec', cos inc' \<sqdot> sin dec', sin inc')\<close> with
  \<open>inc' = inc \<sqdot> \<pi> / 180\<close> and \<open>dec' = dec \<sqdot> \<pi> / 180\<close>. The resolver is a function of its two
  arguments alone, and on finite arguments it has a value, of finite components: it has no
  way to fail.
\<close>

theorem dircos_formula:
  "dircos (Fin inc) (Fin dec) =
     (Fin (cos (inc * pi / 180) * cos (dec * pi / 180)),
      Fin (cos (inc * pi / 180) * sin (dec * pi / 180)),
      Fin (sin (inc * pi / 180)))"
  by (rule dircos_Fin)

text \<open>
  Claim C6. For every inclination and declination, the vector \<^verbatim>\<open>_dircos\<close> returns has
  Euclidean length 1 (over the reals).
\<close>

theorem dircos_unit:
  "\<exists>vx vy vz. dircos (Fin inc) (Fin dec) = (Fin vx, Fin vy, Fin vz)
     \<and> sqrt (vx\<^sup>2 + vy\<^sup>2 + vz\<^sup>2) = 1"
proof (intro exI conjI)
  show "dircos (Fin inc) (Fin dec) =
     (Fin (cos (inc * pi / 180) * cos (dec * pi / 180)),
      Fin (cos (inc * pi / 180) * sin (dec * pi / 180)),
      Fin (sin (inc * pi / 180)))"
    by (rule dircos_Fin)
  show "sqrt ((cos (inc * pi / 180) * cos (dec * pi / 180))\<^sup>2
      + (cos (inc * pi / 180) * sin (dec * pi / 180))\<^sup>2 + (sin (inc * pi / 180))\<^sup>2) = 1"
    by (simp only: unit_length real_sqrt_one)
qed

subsection \<open>Sources that do not contribute\<close>

lemma contributes_simps:
  "contributes name None = False"
  "contributes name (Some s) = (sphere_props s name \<noteq> None)"
  by (simp_all add: contributes_def)

lemma tf_loop_filter:
  "tf_loop f xp yp zp (filter (contributes ''magnetization'') spheres) tf0
     = tf_loop f xp yp zp spheres tf0"
proof (induction f xp yp zp spheres tf0 rule: tf_loop.induct)
  case (3 f xp yp zp s spheres tf0)
  then show ?case
    by (cases "sphere_props s ''magnetization''")
      (simp_all add: contributes_simps split: sum.splits)
qed (simp_all add: contributes_simps)

lemma gz_loop_filter:
  "gz_loop xp yp zp (filter (contributes ''density'') spheres) res0
     = gz_loop xp yp zp spheres res0"
proof (induction xp yp zp spheres res0 rule: gz_loop.induct)
  case (3 xp yp zp s spheres res0)
  then show ?case
    by (cases "sphere_props s ''density''")
      (simp_all add: contributes_simps split: sum.splits)
qed (simp_all add: contributes_simps)

text \<open>
  Claim C7. On every list of sources, with any observation arrays and any ambient
  direction, \<^verbatim>\<open>tf\<close> (\<^verbatim>\<open>gz\<close>) gives what it gives on the list without its null entries and
  without the sources that lack a magnetization (a density): the outputs are equal, and so
  are the errors, none of which comes from such an entry.
\<close>

theorem skipping:
  "tf K xp yp zp (filter (contributes ''magnetization'') spheres) inc dec
     = tf K xp yp zp spheres inc dec
   \<and> gz K xp yp zp (filter (contributes ''density'') spheres) = gz K xp yp zp spheres"
  by (simp add: tf_def gz_def tf_loop_filter gz_loop_filter)

subsection \<open>The validation of the shapes\<close>

lemma elementwise_no_mismatch: "elementwise f a b \<noteq> Inl ShapeMismatch"
  by (simp add: elementwise_def split: option.splits)

lemma lift2_no_mismatch:
  "ra \<noteq> Inl ShapeMismatch \<Longrightarrow> rb \<noteq> Inl ShapeMismatch \<Longrightarrow> lift2 f ra rb \<noteq> Inl ShapeMismatch"
  by (cases ra; cases rb) (simp_all add: lift2_def elementwise_no_mismatch)

lemma lift1_no_mismatch: "ra \<noteq> Inl ShapeMismatch \<Longrightarrow> lift1 f ra \<noteq> Inl ShapeMismatch"
  by (cases ra) (simp_all add: lift1_def)

lemmas no_mismatch =
  lift2_no_mismatch [of _ _ fadd, folded arr_add_def]
  lift2_no_mismatch [of _ _ fsub, folded arr_sub_def]
  lift2_no_mismatch [of _ _ fmul, folded arr_mul_def]
  lift2_no_mismatch [of _ _ fdiv, folded arr_div_def]
  lift1_no_mismatch

lemma tf_sphere_no_mismatch: "tf_sphere f xp yp zp s mag tf0 \<noteq> Inl ShapeMismatch"
  unfolding tf_sphere_def Let_def split_beta scal_mul_def mul_scal_def arr_pow_def arr_powr_def
  by (intro no_mismatch) (simp_all add: sub_scal_def)

lemma gz_sphere_no_mismatch: "gz_sphere xp yp zp s density res0 \<noteq> Inl ShapeMismatch"
  unfolding gz_sphere_def Let_def scal_mul_def mul_scal_def arr_pow_def arr_powr_def
  by (intro no_mismatch) (simp_all add: sub_scal_def)

lemma tf_loop_no_mismatch: "tf_loop f xp yp zp spheres tf0 \<noteq> Inl ShapeMismatch"
  using tf_sphere_no_mismatch
  by (induction f xp yp zp spheres tf0 rule: tf_loop.induct)
    (auto split: option.splits sum.splits)

lemma gz_loop_no_mismatch: "gz_loop xp yp zp spheres res0 \<noteq> Inl ShapeMismatch"
  using gz_sphere_no_mismatch
  by (induction xp yp zp spheres res0 rule: gz_loop.induct)
    (auto split: option.splits sum.splits)

text \<open>
  Claim C10, as amended. The validation is the chained comparison
  \<^verbatim>\<open>xp.shape != yp.shape != zp.shape\<close>, that is, \<open>xp.shape \<noteq> yp.shape\<close> and
  \<open>yp.shape \<noteq> zp.shape\<close>. So whenever \<open>xp\<close> and \<open>yp\<close> have one shape, whatever the shape of
  \<open>zp\<close>, and whenever \<open>yp\<close> and \<open>zp\<close> have one shape, the validation raises nothing: the
  call does not end in \<open>ShapeMismatch\<close>, it is the evaluation of the loop on the arrays as
  they are, and it either returns an array (numpy broadcasts the array of the other shape)
  or ends in numpy's own error for shapes that cannot be broadcast.
\<close>

theorem chained_check:
  assumes "shape xp = shape yp \<or> shape yp = shape zp"
  shows "tf K xp yp zp spheres inc dec
           = scal_mul (fmul (Fin (CM K)) (Fin (T2NT K)))
               (tf_loop (dircos inc dec) xp yp zp spheres (zeros_like xp))
         \<and> tf K xp yp zp spheres inc dec \<noteq> Inl ShapeMismatch
         \<and> ((\<exists>out. tf K xp yp zp spheres inc dec = Inr out)
              \<or> tf K xp yp zp spheres inc dec = Inl BroadcastError)
         \<and> gz K xp yp zp spheres
           = scal_mul (fmul (Fin (G K)) (Fin (SI2MGAL K))) (gz_loop xp yp zp spheres (zeros_like xp))
         \<and> gz K xp yp zp spheres \<noteq> Inl ShapeMismatch
         \<and> ((\<exists>out. gz K xp yp zp spheres = Inr out)
              \<or> gz K xp yp zp spheres = Inl BroadcastError)"
proof -
  have t: "tf K xp yp zp spheres inc dec
      = scal_mul (fmul (Fin (CM K)) (Fin (T2NT K)))
          (tf_loop (dircos inc dec) xp yp zp spheres (zeros_like xp))"
    using assms by (auto simp: tf_def)
  have g: "gz K xp yp zp spheres
      = scal_mul (fmul (Fin (G K)) (Fin (SI2MGAL K))) (gz_loop xp yp zp spheres (zeros_like xp))"
    using assms by (auto simp: gz_def)
  have tn: "tf K xp yp zp spheres inc dec \<noteq> Inl ShapeMismatch"
    unfolding t scal_mul_def by (intro lift1_no_mismatch tf_loop_no_mismatch)
  have gn: "gz K xp yp zp spheres \<noteq> Inl ShapeMismatch"
    unfolding g scal_mul_def by (intro lift1_no_mismatch gz_loop_no_mismatch)
  have either: "(\<exists>out. r = Inr out) \<or> r = Inl BroadcastError"
    if "r \<noteq> Inl ShapeMismatch" for r :: result
  proof (cases r)
    case (Inl e)
    with that show ?thesis by (cases e) simp_all
  next
    case (Inr out)
    then show ?thesis by simp
  qed
  from either [OF tn] either [OF gn] tn gn t g show ?thesis
    by (intro conjI)
qed

theorem chained_check_witness:
  "(shape \<lparr>shape = [1], data = [Fin 0]\<rparr> = shape \<lparr>shape = [4], data = [Fin 0, Fin 0, Fin 0, Fin 0]\<rparr>
      \<or> shape \<lparr>shape = [4], data = [Fin 0, Fin 0, Fin 0, Fin 0]\<rparr>
          = shape \<lparr>shape = [4], data = [Fin 1, Fin 1, Fin 1, Fin 1]\<rparr>)
   \<and> tf \<lparr>CM = 1, T2NT = 1, G = 1, SI2MGAL = 1\<rparr>
        \<lparr>shape = [1], data = [Fin 0]\<rparr> \<lparr>shape = [4], data = [Fin 0, Fin 0, Fin 0, Fin 0]\<rparr>
        \<lparr>shape = [4], data = [Fin 1, Fin 1, Fin 1, Fin 1]\<rparr>
        [Some \<lparr>sphere_x = Fin 0, sphere_y = Fin 0, sphere_z = Fin 0, sphere_radius = Fin 1,
               sphere_props = [''magnetization'' \<mapsto> Fin 3, ''density'' \<mapsto> Fin 3]\<rparr>]
        (Fin 0) (Fin 0) \<noteq> Inl ShapeMismatch
   \<and> gz \<lparr>CM = 1, T2NT = 1, G = 1, SI2MGAL = 1\<rparr>
        \<lparr>shape = [1], data = [Fin 0]\<rparr> \<lparr>shape = [4], data = [Fin 0, Fin 0, Fin 0, Fin 0]\<rparr>
        \<lparr>shape = [4], data = [Fin 1, Fin 1, Fin 1, Fin 1]\<rparr>
        [Some \<lparr>sphere_x = Fin 0, sphere_y = Fin 0, sphere_z = Fin 0, sphere_radius = Fin 1,
               sphere_props = [''magnetization'' \<mapsto> Fin 3, ''density'' \<mapsto> Fin 3]\<rparr>]
        \<noteq> Inl ShapeMismatch"
proof -
  let ?xp = "\<lparr>shape = [1], data = [Fin 0]\<rparr>"
  let ?yp = "\<lparr>shape = [4], data = [Fin 0, Fin 0, Fin 0, Fin 0]\<rparr>"
  let ?zp = "\<lparr>shape = [4], data = [Fin 1, Fin 1, Fin 1, Fin 1]\<rparr>"
  have h: "shape ?xp = shape ?yp \<or> shape ?yp = shape ?zp"
    by simp
  from chained_check [OF h] show ?thesis
    by (intro conjI h) blast+
qed

subsection \<open>Arrays of different shapes\<close>

text \<open>What the operations do on some one-dimensional arrays of different lengths.\<close>

lemma elementwise_1_4:
  "elementwise f \<lparr>shape = [1], data = [a]\<rparr> \<lparr>shape = [4], data = [b0, b1, b2, b3]\<rparr>
     = Inr \<lparr>shape = [4], data = [f a b0, f a b1, f a b2, f a b3]\<rparr>"
  by (simp add: elementwise_def broadcast_shapes_def broadcast_data_def upt_rec)

lemma elementwise_4_1:
  "elementwise f \<lparr>shape = [4], data = [b0, b1, b2, b3]\<rparr> \<lparr>shape = [1], data = [a]\<rparr>
     = Inr \<lparr>shape = [4], data = [f b0 a, f b1 a, f b2 a, f b3 a]\<rparr>"
  by (simp add: elementwise_def broadcast_shapes_def broadcast_data_def upt_rec)

lemma elementwise_4_4:
  "elementwise f \<lparr>shape = [4], data = [a0, a1, a2, a3]\<rparr> \<lparr>shape = [4], data = [b0, b1, b2, b3]\<rparr>
     = Inr \<lparr>shape = [4], data = [f a0 b0, f a1 b1, f a2 b2, f a3 b3]\<rparr>"
  by (simp add: elementwise_def broadcast_shapes_def broadcast_data_def upt_rec)

lemma elementwise_2_3:
  "elementwise f \<lparr>shape = [2], data = as\<rparr> \<lparr>shape = [3], data = bs\<rparr> = Inl BroadcastError"
  by (simp add: elementwise_def broadcast_shapes_def)


lemma elementwise_2x3_3:
  "elementwise f \<lparr>shape = [2, 3], data = [a0, a1, a2, a3, a4, a5]\<rparr>
       \<lparr>shape = [3], data = [b0, b1, b2]\<rparr>
     = Inr \<lparr>shape = [2, 3],
            data = [f a0 b0, f a1 b1, f a2 b2, f a3 b0, f a4 b1, f a5 b2]\<rparr>"
  by (simp add: elementwise_def broadcast_shapes_def broadcast_data_def upt_rec)

lemma elementwise_2x1_1x3:
  "elementwise f \<lparr>shape = [2, 1], data = [a0, a1]\<rparr> \<lparr>shape = [1, 3], data = [b0, b1, b2]\<rparr>
     = Inr \<lparr>shape = [2, 3],
            data = [f a0 b0, f a0 b1, f a0 b2, f a1 b0, f a1 b1, f a1 b2]\<rparr>"
  by (simp add: elementwise_def broadcast_shapes_def broadcast_data_def upt_rec)

lemmas elementwise_vec = elementwise_1_4 elementwise_4_1 elementwise_4_4
  elementwise_1_4 [simplified One_nat_def] elementwise_4_1 [simplified One_nat_def]

lemmas eval_ops = arr_add_def arr_sub_def arr_mul_def arr_div_def scal_mul_def mul_scal_def
  sub_scal_def arr_pow_def arr_powr_def lift1_def lift2_def amap_def

lemma tf_sphere_broadcast:
  "tf_sphere (Fin 1, Fin 0, Fin 0) \<lparr>shape = [1], data = [Fin 0]\<rparr>
        \<lparr>shape = [4], data = [Fin 0, Fin 0, Fin 0, Fin 0]\<rparr>
        \<lparr>shape = [4], data = [Fin 1, Fin 1, Fin 1, Fin 1]\<rparr>
        \<lparr>sphere_x = Fin 0, sphere_y = Fin 0, sphere_z = Fin 0, sphere_radius = Fin 1,
               sphere_props = [''magnetization'' \<mapsto> Fin 3, ''density'' \<mapsto> Fin 3]\<rparr>
        (Fin 3) \<lparr>shape = [1], data = [Fin 0]\<rparr>
     = Inr \<lparr>shape = [4], data = [Fin (- (4 * pi)), Fin (- (4 * pi)), Fin (- (4 * pi)), Fin (- (4 * pi))]\<rparr>"
  by (simp add: tf_sphere_def Let_def eval_ops elementwise_vec
      fsub_def)

lemma gz_sphere_broadcast:
  "gz_sphere \<lparr>shape = [1], data = [Fin 0]\<rparr>
        \<lparr>shape = [4], data = [Fin 0, Fin 0, Fin 0, Fin 0]\<rparr>
        \<lparr>shape = [4], data = [Fin 1, Fin 1, Fin 1, Fin 1]\<rparr>
        \<lparr>sphere_x = Fin 0, sphere_y = Fin 0, sphere_z = Fin 0, sphere_radius = Fin 1,
               sphere_props = [''magnetization'' \<mapsto> Fin 3, ''density'' \<mapsto> Fin 3]\<rparr>
        (Fin 3) \<lparr>shape = [1], data = [Fin 0]\<rparr>
     = Inr \<lparr>shape = [4], data = [Fin (4 * pi), Fin (4 * pi), Fin (4 * pi), Fin (4 * pi)]\<rparr>"
  by (simp add: gz_sphere_def Let_def eval_ops elementwise_vec
      fsub_def)

lemma tf_sphere_broadcast_error:
  "tf_sphere f \<lparr>shape = [2], data = dx\<rparr> \<lparr>shape = [2], data = dy\<rparr> \<lparr>shape = [3], data = dz\<rparr>
       s mag tf0 = Inl BroadcastError"
  by (cases f) (simp add: tf_sphere_def Let_def eval_ops elementwise_2_3 elementwise_def
      broadcast_shapes_def split: prod.splits)

lemma tf_broadcast_error:
  assumes "sphere_props s ''magnetization'' = Some mag"
  shows "tf K \<lparr>shape = [2], data = dx\<rparr> \<lparr>shape = [2], data = dy\<rparr> \<lparr>shape = [3], data = dz\<rparr>
           (Some s # spheres) inc dec = Inl BroadcastError"
  using assms by (simp add: tf_def tf_sphere_broadcast_error scal_mul_def lift1_def)

lemma gz_sphere_broadcast_error:
  "gz_sphere \<lparr>shape = [2], data = dx\<rparr> \<lparr>shape = [2], data = dy\<rparr> \<lparr>shape = [3], data = dz\<rparr>
       s density res0 = Inl BroadcastError"
  by (simp add: gz_sphere_def Let_def eval_ops elementwise_2_3 elementwise_def
      broadcast_shapes_def)

lemma gz_broadcast_error:
  assumes "sphere_props s ''density'' = Some density"
  shows "gz K \<lparr>shape = [2], data = dx\<rparr> \<lparr>shape = [2], data = dy\<rparr> \<lparr>shape = [3], data = dz\<rparr>
           (Some s # spheres) = Inl BroadcastError"
  using assms by (simp add: gz_def gz_sphere_broadcast_error scal_mul_def lift1_def)

text \<open>
  Claim C10 as it was worded says that no shape error is raised when \<open>xp\<close> and \<open>yp\<close> have
  one shape, whatever the shape of \<open>zp\<close>. With \<open>xp\<close> and \<open>yp\<close> of shape \<open>(2,)\<close>, \<open>zp\<close> of
  shape \<open>(3,)\<close> and a contributing source, the validation passes and both evaluators end in
  numpy's error for shapes that cannot be broadcast, a \<^verbatim>\<open>ValueError\<close> about the shapes.
\<close>

theorem chained_check_counterexample:
  "shape \<lparr>shape = [2], data = [Fin 0, Fin 0]\<rparr> = shape \<lparr>shape = [2], data = [Fin 0, Fin 0]\<rparr>
   \<and> tf \<lparr>CM = 1 / 10000000, T2NT = 1000000000, G = 6673 / 100000000000000, SI2MGAL = 100000\<rparr>
        \<lparr>shape = [2], data = [Fin 0, Fin 0]\<rparr> \<lparr>shape = [2], data = [Fin 0, Fin 0]\<rparr>
        \<lparr>shape = [3], data = [Fin 1, Fin 1, Fin 1]\<rparr>
        [Some \<lparr>sphere_x = Fin 0, sphere_y = Fin 0, sphere_z = Fin 0, sphere_radius = Fin 1,
               sphere_props = [''magnetization'' \<mapsto> Fin 3, ''density'' \<mapsto> Fin 3]\<rparr>]
        (Fin 0) (Fin 0) = Inl BroadcastError
   \<and> gz \<lparr>CM = 1 / 10000000, T2NT = 1000000000, G = 6673 / 100000000000000, SI2MGAL = 100000\<rparr>
        \<lparr>shape = [2], data = [Fin 0, Fin 0]\<rparr> \<lparr>shape = [2], data = [Fin 0, Fin 0]\<rparr>
        \<lparr>shape = [3], data = [Fin 1, Fin 1, Fin 1]\<rparr>
        [Some \<lparr>sphere_x = Fin 0, sphere_y = Fin 0, sphere_z = Fin 0, sphere_radius = Fin 1,
               sphere_props = [''magnetization'' \<mapsto> Fin 3, ''density'' \<mapsto> Fin 3]\<rparr>]
        = Inl BroadcastError"
  by (simp add: tf_broadcast_error gz_broadcast_error)

lemma dircos_zero: "dircos (Fin 0) (Fin 0) = (Fin 1, Fin 0, Fin 0)"
  by (simp add: dircos_def)

lemma shape_mismatch_iff:
  "tf K xp yp zp spheres inc dec = Inl ShapeMismatch
     \<longleftrightarrow> shape xp \<noteq> shape yp \<and> shape yp \<noteq> shape zp"
  "gz K xp yp zp spheres = Inl ShapeMismatch
     \<longleftrightarrow> shape xp \<noteq> shape yp \<and> shape yp \<noteq> shape zp"
  using lift1_no_mismatch [OF tf_loop_no_mismatch] lift1_no_mismatch [OF gz_loop_no_mismatch]
  by (simp_all add: tf_def gz_def scal_mul_def)

text \<open>
  Claim C1 says that every call in which \<open>xp\<close>, \<open>yp\<close> and \<open>zp\<close> do not all have one shape
  ends in \<open>ShapeMismatch\<close> before any numeric work, in particular every call with \<open>xp\<close>
  of shape \<open>(3,)\<close> and \<open>yp\<close> of shape \<open>(4,)\<close>. The evaluators do not do that. With
  \<open>xp\<close> of shape \<open>(3,)\<close>, \<open>yp\<close> and \<open>zp\<close> of shape \<open>(4,)\<close> and no source, both return an
  array of three zeros; with \<open>xp\<close> of shape \<open>(1,)\<close>, \<open>yp\<close> and \<open>zp\<close> of shape \<open>(4,)\<close> and a
  unit sphere at the origin, both broadcast \<open>xp\<close> and return an array of shape \<open>(4,)\<close>.
\<close>

theorem shape_check_misses:
  "tf K \<lparr>shape = [3], data = [Fin 0, Fin 0, Fin 0]\<rparr>
        \<lparr>shape = [4], data = [Fin 0, Fin 0, Fin 0, Fin 0]\<rparr>
        \<lparr>shape = [4], data = [Fin 0, Fin 0, Fin 0, Fin 0]\<rparr> [] inc dec
     = Inr \<lparr>shape = [3], data = [Fin 0, Fin 0, Fin 0]\<rparr>
   \<and> gz K \<lparr>shape = [3], data = [Fin 0, Fin 0, Fin 0]\<rparr>
        \<lparr>shape = [4], data = [Fin 0, Fin 0, Fin 0, Fin 0]\<rparr>
        \<lparr>shape = [4], data = [Fin 0, Fin 0, Fin 0, Fin 0]\<rparr> []
     = Inr \<lparr>shape = [3], data = [Fin 0, Fin 0, Fin 0]\<rparr>
   \<and> tf K \<lparr>shape = [1], data = [Fin 0]\<rparr>
        \<lparr>shape = [4], data = [Fin 0, Fin 0, Fin 0, Fin 0]\<rparr>
        \<lparr>shape = [4], data = [Fin 1, Fin 1, Fin 1, Fin 1]\<rparr>
        [Some \<lparr>sphere_x = Fin 0, sphere_y = Fin 0, sphere_z = Fin 0, sphere_radius = Fin 1,
               sphere_props = [''magnetization'' \<mapsto> Fin 3, ''density'' \<mapsto> Fin 3]\<rparr>]
        (Fin 0) (Fin 0)
     = Inr \<lparr>shape = [4], data = [Fin (CM K * T2NT K * (- 4 * pi)), Fin (CM K * T2NT K * (- 4 * pi)),
                        Fin (CM K * T2NT K * (- 4 * pi)), Fin (CM K * T2NT K * (- 4 * pi))]\<rparr>
   \<and> gz K \<lparr>shape = [1], data = [Fin 0]\<rparr>
        \<lparr>shape = [4], data = [Fin 0, Fin 0, Fin 0, Fin 0]\<rparr>
        \<lparr>shape = [4], data = [Fin 1, Fin 1, Fin 1, Fin 1]\<rparr>
        [Some \<lparr>sphere_x = Fin 0, sphere_y = Fin 0, sphere_z = Fin 0, sphere_radius = Fin 1,
               sphere_props = [''magnetization'' \<mapsto> Fin 3, ''density'' \<mapsto> Fin 3]\<rparr>]
     = Inr \<lparr>shape = [4], data = [Fin (G K * SI2MGAL K * (4 * pi)), Fin (G K * SI2MGAL K * (4 * pi)),
                        Fin (G K * SI2MGAL K * (4 * pi)), Fin (G K * SI2MGAL K * (4 * pi))]\<rparr>"
proof (intro conjI)
  show "tf K \<lparr>shape = [3], data = [Fin 0, Fin 0, Fin 0]\<rparr>
        \<lparr>shape = [4], data = [Fin 0, Fin 0, Fin 0, Fin 0]\<rparr>
        \<lparr>shape = [4], data = [Fin 0, Fin 0, Fin 0, Fin 0]\<rparr> [] inc dec
     = Inr \<lparr>shape = [3], data = [Fin 0, Fin 0, Fin 0]\<rparr>"
    by (simp add: tf_def zeros_like_def scal_mul_def lift1_def amap_def numeral_3_eq_3)
  show "gz K \<lparr>shape = [3], data = [Fin 0, Fin 0, Fin 0]\<rparr>
        \<lparr>shape = [4], data = [Fin 0, Fin 0, Fin 0, Fin 0]\<rparr>
        \<lparr>shape = [4], data = [Fin 0, Fin 0, Fin 0, Fin 0]\<rparr> []
     = Inr \<lparr>shape = [3], data = [Fin 0, Fin 0, Fin 0]\<rparr>"
    by (simp add: gz_def zeros_like_def scal_mul_def lift1_def amap_def numeral_3_eq_3)
  show "tf K \<lparr>shape = [1], data = [Fin 0]\<rparr>
        \<lparr>shape = [4], data = [Fin 0, Fin 0, Fin 0, Fin 0]\<rparr>
        \<lparr>shape = [4], data = [Fin 1, Fin 1, Fin 1, Fin 1]\<rparr>
        [Some \<lparr>sphere_x = Fin 0, sphere_y = Fin 0, sphere_z = Fin 0, sphere_radius = Fin 1,
               sphere_props = [''magnetization'' \<mapsto> Fin 3, ''density'' \<mapsto> Fin 3]\<rparr>]
        (Fin 0) (Fin 0)
     = Inr \<lparr>shape = [4], data = [Fin (CM K * T2NT K * (- 4 * pi)), Fin (CM K * T2NT K * (- 4 * pi)),
                        Fin (CM K * T2NT K * (- 4 * pi)), Fin (CM K * T2NT K * (- 4 * pi))]\<rparr>"
    by (simp add: tf_def zeros_like_def dircos_zero tf_sphere_broadcast [unfolded One_nat_def] scal_mul_def lift1_def amap_def)
  show "gz K \<lparr>shape = [1], data = [Fin 0]\<rparr>
        \<lparr>shape = [4], data = [Fin 0, Fin 0, Fin 0, Fin 0]\<rparr>
        \<lparr>shape = [4], data = [Fin 1, Fin 1, Fin 1, Fin 1]\<rparr>
        [Some \<lparr>sphere_x = Fin 0, sphere_y = Fin 0, sphere_z = Fin 0, sphere_radius = Fin 1,
               sphere_props = [''magnetization'' \<mapsto> Fin 3, ''density'' \<mapsto> Fin 3]\<rparr>]
     = Inr \<lparr>shape = [4], data = [Fin (G K * SI2MGAL K * (4 * pi)), Fin (G K * SI2MGAL K * (4 * pi)),
                        Fin (G K * SI2MGAL K * (4 * pi)), Fin (G K * SI2MGAL K * (4 * pi))]\<rparr>"
    by (simp add: gz_def zeros_like_def gz_sphere_broadcast [unfolded One_nat_def] scal_mul_def lift1_def amap_def)
qed

subsection \<open>The formulas of the two fields\<close>

lemmas eval_point = pointwise_def tf_point_def gz_point_def tf_contribution_def gz_contribution_def
  dipole_anomaly_def centred_def magnetization_direction_def sphere_total_def fsub_def Let_def

lemma dircos_180: "dircos (Fin 180) (Fin 0) = (Fin (- 1), Fin 0, Fin 0)"
  by (simp add: dircos_def)

lemma magnetization_direction_dom:
  "magnetization_direction s f =
     (if ''inclination'' \<in> dom (sphere_props s) \<and> ''declination'' \<in> dom (sphere_props s)
      then dircos (the (sphere_props s ''inclination'')) (the (sphere_props s ''declination''))
      else f)"
  by (auto simp: magnetization_direction_def dom_def split: option.splits)

text \<open>
  Claim C2. On well-formed observation arrays of one shape, \<^verbatim>\<open>tf\<close> returns the array of
  that shape that holds, for each observation point, the product of \<open>CM\<close> and \<open>T2NT\<close> times
  the sum, started at zero and taken over the contributing sources (not null, with a
  magnetization) in the order of the list, of \<open>fx \<sqdot> bx + fy \<sqdot> by + fz \<sqdot> bz\<close>, where
  \<open>x = xp - sx\<close>, \<open>y = yp - sy\<close>, \<open>z = zp - sz\<close>,
  \<open>moment = magnetization \<sqdot> (4/3) \<sqdot> \<pi> \<sqdot> radius\<^sup>3\<close>, \<open>dot = mx \<sqdot> x + my \<sqdot> y + mz \<sqdot> z\<close>,
  \<open>r2 = x\<^sup>2 + y\<^sup>2 + z\<^sup>2\<close> and \<^verbatim>\<open>bx = moment*(3*dot*x - r2*mx)/r2**2.5\<close>, and
  the same for \<open>by\<close> and \<open>bz\<close> (\<open>tf_point\<close>, \<open>tf_contribution\<close> and \<open>dipole_anomaly\<close>).
\<close>

theorem tf_formula:
  assumes "wf_array xp" "wf_array yp" "wf_array zp"
    and "shape xp = shape yp" "shape yp = shape zp"
  shows "tf K xp yp zp spheres inc dec = Inr (pointwise (tf_point K spheres inc dec) xp yp zp)"
  using assms by (rule tf_closed_form)

theorem tf_formula_witness:
  "wf_array \<lparr>shape = [2], data = [Fin 1, Fin 0]\<rparr>
   \<and> wf_array \<lparr>shape = [2], data = [Fin 0, Fin 0]\<rparr>
   \<and> wf_array \<lparr>shape = [2], data = [Fin 0, Fin 1]\<rparr>
   \<and> tf \<lparr>CM = 1 / 10000000, T2NT = 1000000000, G = 6673 / 100000000000000, SI2MGAL = 100000\<rparr>
        \<lparr>shape = [2], data = [Fin 1, Fin 0]\<rparr>
        \<lparr>shape = [2], data = [Fin 0, Fin 0]\<rparr>
        \<lparr>shape = [2], data = [Fin 0, Fin 1]\<rparr>
        [None,
         Some \<lparr>sphere_x = Fin 0, sphere_y = Fin 0, sphere_z = Fin 0, sphere_radius = Fin 1,
               sphere_props = [''magnetization'' \<mapsto> Fin 3]\<rparr>,
         Some \<lparr>sphere_x = Fin 5, sphere_y = Fin 5, sphere_z = Fin 5, sphere_radius = Fin 1,
               sphere_props = [''density'' \<mapsto> Fin 3]\<rparr>]
        (Fin 0) (Fin 0)
     = Inr \<lparr>shape = [2], data = [Fin (800 * pi), Fin (- (400 * pi))]\<rparr>"
proof -
  let ?xp = "\<lparr>shape = [2], data = [Fin 1, Fin 0]\<rparr>"
  let ?yp = "\<lparr>shape = [2], data = [Fin 0, Fin 0]\<rparr>"
  let ?zp = "\<lparr>shape = [2], data = [Fin 0, Fin 1]\<rparr>"
  have wf: "wf_array ?xp" "wf_array ?yp" "wf_array ?zp"
    by (simp_all add: wf_array_def)
  have sh: "shape ?xp = shape ?yp" "shape ?yp = shape ?zp"
    by simp_all
  show ?thesis
    unfolding tf_formula [OF wf sh]
    by (simp add: wf_array_def eval_point dircos_zero upt_rec)
qed

text \<open>
  Claim C3. On well-formed observation arrays of one shape, \<^verbatim>\<open>gz\<close> returns the array of
  that shape that holds, for each observation point, the product of \<open>G\<close> and \<open>SI2MGAL\<close>
  times the sum, started at zero and taken over the contributing sources (not null, with
  a density) in the order of the list, of \<open>mass \<sqdot> z / r\<^sup>3\<close>, where
  \<open>mass = density \<sqdot> (4/3) \<sqdot> \<pi> \<sqdot> radius\<^sup>3\<close> and \<^verbatim>\<open>r**3 = (x**2 + y**2 + z**2)**1.5\<close> in the coordinates
  centred on the source (\<open>gz_point\<close> and \<open>gz_contribution\<close>).
\<close>

theorem gz_formula:
  assumes "wf_array xp" "wf_array yp" "wf_array zp"
    and "shape xp = shape yp" "shape yp = shape zp"
  shows "gz K xp yp zp spheres = Inr (pointwise (gz_point K spheres) xp yp zp)"
  using assms by (rule gz_closed_form)

theorem gz_formula_witness:
  "wf_array \<lparr>shape = [2], data = [Fin 0, Fin 0]\<rparr>
   \<and> wf_array \<lparr>shape = [2], data = [Fin 1, Fin (- 1)]\<rparr>
   \<and> gz \<lparr>CM = 1 / 10000000, T2NT = 1000000000, G = 6673 / 100000000000000, SI2MGAL = 100000\<rparr>
        \<lparr>shape = [2], data = [Fin 0, Fin 0]\<rparr>
        \<lparr>shape = [2], data = [Fin 0, Fin 0]\<rparr>
        \<lparr>shape = [2], data = [Fin 1, Fin (- 1)]\<rparr>
        [Some \<lparr>sphere_x = Fin 0, sphere_y = Fin 0, sphere_z = Fin 0, sphere_radius = Fin 1,
               sphere_props = [''density'' \<mapsto> Fin 3]\<rparr>,
         None,
         Some \<lparr>sphere_x = Fin 5, sphere_y = Fin 5, sphere_z = Fin 5, sphere_radius = Fin 1,
               sphere_props = [''magnetization'' \<mapsto> Fin 3]\<rparr>]
     = Inr \<lparr>shape = [2],
            data = [Fin (6673 / 1000000000 * (4 * pi)), Fin (- (6673 / 1000000000 * (4 * pi)))]\<rparr>"
proof -
  let ?xp = "\<lparr>shape = [2], data = [Fin 0, Fin 0]\<rparr>"
  let ?zp = "\<lparr>shape = [2], data = [Fin 1, Fin (- 1)]\<rparr>"
  have wx: "wf_array ?xp" and wz: "wf_array ?zp"
    by (simp_all add: wf_array_def)
  have sh: "shape ?xp = shape ?xp" "shape ?xp = shape ?zp"
    by simp_all
  show ?thesis
    unfolding gz_formula [OF wx wx wz sh]
    by (simp add: wf_array_def eval_point upt_rec)
qed

text \<open>
  Claim C4. In \<^verbatim>\<open>tf\<close>, the direction of the magnetization of a source is the source's own,
  \<^verbatim>\<open>_dircos\<close> of its inclination and declination, when both are among its properties, and
  the ambient direction, \<^verbatim>\<open>_dircos(inc, dec)\<close>, when either is missing; the direction the
  field of every source is projected on is the ambient direction, the same vector for all
  sources of the call.
\<close>

theorem magnetization_direction_rule:
  assumes "wf_array xp" "wf_array yp" "wf_array zp"
    and "shape xp = shape yp" "shape yp = shape zp"
  shows "tf K xp yp zp spheres inc dec =
     Inr (pointwise
       (\<lambda>p. fmul (Fin (CM K * T2NT K))
          (foldl fadd (Fin 0)
             (map (\<lambda>(s, mag).
                     dipole_anomaly (dircos inc dec)
                       (if ''inclination'' \<in> dom (sphere_props s)
                           \<and> ''declination'' \<in> dom (sphere_props s)
                        then dircos (the (sphere_props s ''inclination''))
                               (the (sphere_props s ''declination''))
                        else dircos inc dec)
                       (sphere_total mag (sphere_radius s)) (centred s p))
                (contributing ''magnetization'' spheres))))
       xp yp zp)"
proof -
  have "tf_point K spheres inc dec =
     (\<lambda>p. fmul (Fin (CM K * T2NT K))
          (foldl fadd (Fin 0)
             (map (\<lambda>(s, mag).
                     dipole_anomaly (dircos inc dec)
                       (if ''inclination'' \<in> dom (sphere_props s)
                           \<and> ''declination'' \<in> dom (sphere_props s)
                        then dircos (the (sphere_props s ''inclination''))
                               (the (sphere_props s ''declination''))
                        else dircos inc dec)
                       (sphere_total mag (sphere_radius s)) (centred s p))
                (contributing ''magnetization'' spheres))))"
    by (rule ext) (simp add: tf_point_def tf_contribution_def magnetization_direction_dom)
  with tf_closed_form [OF assms, of K spheres inc dec] show ?thesis
    by simp
qed

theorem magnetization_direction_rule_witness:
  "wf_array \<lparr>shape = [1], data = [Fin 1]\<rparr>
   \<and> wf_array \<lparr>shape = [1], data = [Fin 0]\<rparr>
   \<and> tf \<lparr>CM = 1 / 10000000, T2NT = 1000000000, G = 6673 / 100000000000000, SI2MGAL = 100000\<rparr>
        \<lparr>shape = [1], data = [Fin 1]\<rparr>
        \<lparr>shape = [1], data = [Fin 0]\<rparr>
        \<lparr>shape = [1], data = [Fin 0]\<rparr>
        [Some \<lparr>sphere_x = Fin 0, sphere_y = Fin 0, sphere_z = Fin 0, sphere_radius = Fin 1,
               sphere_props = [''magnetization'' \<mapsto> Fin 3, ''inclination'' \<mapsto> Fin 180,
                               ''declination'' \<mapsto> Fin 0]\<rparr>,
         Some \<lparr>sphere_x = Fin 0, sphere_y = Fin 0, sphere_z = Fin 0, sphere_radius = Fin 1,
               sphere_props = [''magnetization'' \<mapsto> Fin 6, ''inclination'' \<mapsto> Fin 180]\<rparr>]
        (Fin 0) (Fin 0)
     = Inr \<lparr>shape = [1], data = [Fin (800 * pi)]\<rparr>"
proof -
  let ?xp = "\<lparr>shape = [1], data = [Fin 1]\<rparr>"
  let ?yp = "\<lparr>shape = [1], data = [Fin 0]\<rparr>"
  have wx: "wf_array ?xp" and wy: "wf_array ?yp"
    by (simp_all add: wf_array_def)
  have sh: "shape ?xp = shape ?yp" "shape ?yp = shape ?yp"
    by simp_all
  show ?thesis
    unfolding magnetization_direction_rule [OF wx wy wy sh]
    by (simp add: wf_array_def eval_point dircos_zero dircos_180 upt_rec)
qed

subsection \<open>Superposition\<close>

lemma fadd_zero [simp]: "fadd (Fin 0) v = v" "fadd v (Fin 0) = v"
  by (cases v; simp)+

lemma fmul_fadd_distrib:
  "fmul (Fin c) (fadd a b) = fadd (fmul (Fin c) a) (fmul (Fin c) b)"
  by (cases a; cases b) (auto simp: signed_inf_def distrib_left)

lemma tf_tab:
  "tf K \<lparr>shape = s, data = map gx [0..<prod_list s]\<rparr>
       \<lparr>shape = s, data = map gy [0..<prod_list s]\<rparr>
       \<lparr>shape = s, data = map gz' [0..<prod_list s]\<rparr> spheres inc dec
     = Inr \<lparr>shape = s,
            data = map (\<lambda>i. tf_point K spheres inc dec (gx i, gy i, gz' i)) [0..<prod_list s]\<rparr>"
  by (simp add: tf_closed_form wf_array_def pointwise_tab)

lemma gz_tab:
  "gz K \<lparr>shape = s, data = map gx [0..<prod_list s]\<rparr>
       \<lparr>shape = s, data = map gy [0..<prod_list s]\<rparr>
       \<lparr>shape = s, data = map gz' [0..<prod_list s]\<rparr> spheres
     = Inr \<lparr>shape = s,
            data = map (\<lambda>i. gz_point K spheres (gx i, gy i, gz' i)) [0..<prod_list s]\<rparr>"
  by (simp add: gz_closed_form wf_array_def pointwise_tab)

lemma foldl_arr_add_tab:
  "foldl arr_add (Inr \<lparr>shape = s, data = map a [0..<prod_list s]\<rparr>)
       (map (\<lambda>e. Inr \<lparr>shape = s, data = map (h e) [0..<prod_list s]\<rparr>) es)
     = Inr \<lparr>shape = s,
            data = map (\<lambda>i. foldl fadd (a i) (map (\<lambda>e. h e i) es)) [0..<prod_list s]\<rparr>"
  by (induction es arbitrary: a) (simp_all add: arr_add_def lift2_tab)

lemma scaled_sum_over_sources:
  "fmul (Fin c) (foldl fadd a (map g (contributing name spheres)))
     = foldl fadd (fmul (Fin c) a)
         (map (\<lambda>e. fmul (Fin c) (foldl fadd (Fin 0) (map g (contributing name [e])))) spheres)"
proof (induction spheres arbitrary: a)
  case Nil
  show ?case by simp
next
  case (Cons e spheres)
  show ?case
  proof (cases e)
    case None
    then show ?thesis by (simp add: Cons.IH)
  next
    case (Some s)
    then show ?thesis
      by (cases "sphere_props s name") (simp_all add: Cons.IH fmul_fadd_distrib)
  qed
qed

text \<open>
  Claim C8. On well-formed observation arrays of one shape and any list of sources, the
  output of \<^verbatim>\<open>tf\<close> (\<^verbatim>\<open>gz\<close>) on the list is the elementwise sum, started at the zero
  array, of its outputs on the lists of one source each (exactly, rounding being outside the
  model).
\<close>

theorem superposition:
  assumes "wf_array xp" "wf_array yp" "wf_array zp"
    and "shape xp = shape yp" "shape yp = shape zp"
  shows "tf K xp yp zp spheres inc dec
           = foldl arr_add (Inr (zeros_like xp)) (map (\<lambda>e. tf K xp yp zp [e] inc dec) spheres)
         \<and> gz K xp yp zp spheres
           = foldl arr_add (Inr (zeros_like xp)) (map (\<lambda>e. gz K xp yp zp [e]) spheres)"
proof -
  from assms obtain s gx gy gz' where tab:
    "xp = \<lparr>shape = s, data = map gx [0..<prod_list s]\<rparr>"
    "yp = \<lparr>shape = s, data = map gy [0..<prod_list s]\<rparr>"
    "zp = \<lparr>shape = s, data = map gz' [0..<prod_list s]\<rparr>"
    by (rule tabulated_arrays)
  have t: "tf_point K spheres inc dec p
      = foldl fadd (Fin 0) (map (\<lambda>e. tf_point K [e] inc dec p) spheres)" for p
    using scaled_sum_over_sources [of "CM K * T2NT K" "Fin 0" _ "''magnetization''" spheres]
    by (simp add: tf_point_def)
  have g: "gz_point K spheres p = foldl fadd (Fin 0) (map (\<lambda>e. gz_point K [e] p) spheres)" for p
    using scaled_sum_over_sources [of "G K * SI2MGAL K" "Fin 0" _ "''density''" spheres]
    by (simp add: gz_point_def)
  show ?thesis
    unfolding tab
    by (simp add: tf_tab gz_tab zeros_like_tab foldl_arr_add_tab t [symmetric] g [symmetric])
qed

theorem superposition_witness:
  "wf_array \<lparr>shape = [2], data = [Fin 1, Fin 0]\<rparr>
   \<and> wf_array \<lparr>shape = [2], data = [Fin 0, Fin 0]\<rparr>
   \<and> wf_array \<lparr>shape = [2], data = [Fin 0, Fin 1]\<rparr>
   \<and> tf \<lparr>CM = 1 / 10000000, T2NT = 1000000000, G = 6673 / 100000000000000, SI2MGAL = 100000\<rparr>
        \<lparr>shape = [2], data = [Fin 1, Fin 0]\<rparr> \<lparr>shape = [2], data = [Fin 0, Fin 0]\<rparr>
        \<lparr>shape = [2], data = [Fin 0, Fin 1]\<rparr>
        [Some \<lparr>sphere_x = Fin 0, sphere_y = Fin 0, sphere_z = Fin 0, sphere_radius = Fin 1,
               sphere_props = [''magnetization'' \<mapsto> Fin 3, ''density'' \<mapsto> Fin 3]\<rparr>,
         Some \<lparr>sphere_x = Fin 5, sphere_y = Fin 5, sphere_z = Fin 5, sphere_radius = Fin 2,
               sphere_props = [''magnetization'' \<mapsto> Fin 1, ''density'' \<mapsto> Fin 2]\<rparr>]
        (Fin 0) (Fin 0)
     = foldl arr_add (Inr (zeros_like \<lparr>shape = [2], data = [Fin 1, Fin 0]\<rparr>))
         [tf \<lparr>CM = 1 / 10000000, T2NT = 1000000000, G = 6673 / 100000000000000, SI2MGAL = 100000\<rparr>
            \<lparr>shape = [2], data = [Fin 1, Fin 0]\<rparr> \<lparr>shape = [2], data = [Fin 0, Fin 0]\<rparr>
            \<lparr>shape = [2], data = [Fin 0, Fin 1]\<rparr>
            [Some \<lparr>sphere_x = Fin 0, sphere_y = Fin 0, sphere_z = Fin 0, sphere_radius = Fin 1,
               sphere_props = [''magnetization'' \<mapsto> Fin 3, ''density'' \<mapsto> Fin 3]\<rparr>]
            (Fin 0) (Fin 0),
          tf \<lparr>CM = 1 / 10000000, T2NT = 1000000000, G = 6673 / 100000000000000, SI2MGAL = 100000\<rparr>
            \<lparr>shape = [2], data = [Fin 1, Fin 0]\<rparr> \<lparr>shape = [2], data = [Fin 0, Fin 0]\<rparr>
            \<lparr>shape = [2], data = [Fin 0, Fin 1]\<rparr>
            [Some \<lparr>sphere_x = Fin 5, sphere_y = Fin 5, sphere_z = Fin 5, sphere_radius = Fin 2,
               sphere_props = [''magnetization'' \<mapsto> Fin 1, ''density'' \<mapsto> Fin 2]\<rparr>]
            (Fin 0) (Fin 0)]
   \<and> gz \<lparr>CM = 1 / 10000000, T2NT = 1000000000, G = 6673 / 100000000000000, SI2MGAL = 100000\<rparr>
        \<lparr>shape = [2], data = [Fin 1, Fin 0]\<rparr> \<lparr>shape = [2], data = [Fin 0, Fin 0]\<rparr>
        \<lparr>shape = [2], data = [Fin 0, Fin 1]\<rparr>
        [Some \<lparr>sphere_x = Fin 0, sphere_y = Fin 0, sphere_z = Fin 0, sphere_radius = Fin 1,
               sphere_props = [''magnetization'' \<mapsto> Fin 3, ''density'' \<mapsto> Fin 3]\<rparr>,
         Some \<lparr>sphere_x = Fin 5, sphere_y = Fin 5, sphere_z = Fin 5, sphere_radius = Fin 2,
               sphere_props = [''magnetization'' \<mapsto> Fin 1, ''density'' \<mapsto> Fin 2]\<rparr>]
     = foldl arr_add (Inr (zeros_like \<lparr>shape = [2], data = [Fin 1, Fin 0]\<rparr>))
         [gz \<lparr>CM = 1 / 10000000, T2NT = 1000000000, G = 6673 / 100000000000000, SI2MGAL = 100000\<rparr>
            \<lparr>shape = [2], data = [Fin 1, Fin 0]\<rparr> \<lparr>shape = [2], data = [Fin 0, Fin 0]\<rparr>
            \<lparr>shape = [2], data = [Fin 0, Fin 1]\<rparr>
            [Some \<lparr>sphere_x = Fin 0, sphere_y = Fin 0, sphere_z = Fin 0, sphere_radius = Fin 1,
               sphere_props = [''magnetization'' \<mapsto> Fin 3, ''density'' \<mapsto> Fin 3]\<rparr>],
          gz \<lparr>CM = 1 / 10000000, T2NT = 1000000000, G = 6673 / 100000000000000, SI2MGAL = 100000\<rparr>
            \<lparr>shape = [2], data = [Fin 1, Fin 0]\<rparr> \<lparr>shape = [2], data = [Fin 0, Fin 0]\<rparr>
            \<lparr>shape = [2], data = [Fin 0, Fin 1]\<rparr>
            [Some \<lparr>sphere_x = Fin 5, sphere_y = Fin 5, sphere_z = Fin 5, sphere_radius = Fin 2,
               sphere_props = [''magnetization'' \<mapsto> Fin 1, ''density'' \<mapsto> Fin 2]\<rparr>]]"
proof -
  let ?xp = "\<lparr>shape = [2], data = [Fin 1, Fin 0]\<rparr>"
  let ?yp = "\<lparr>shape = [2], data = [Fin 0, Fin 0]\<rparr>"
  let ?zp = "\<lparr>shape = [2], data = [Fin 0, Fin 1]\<rparr>"
  have wf: "wf_array ?xp" "wf_array ?yp" "wf_array ?zp"
    by (simp_all add: wf_array_def)
  have sh: "shape ?xp = shape ?yp" "shape ?yp = shape ?zp"
    by simp_all
  note s = superposition [OF wf sh, of
      "\<lparr>CM = 1 / 10000000, T2NT = 1000000000, G = 6673 / 100000000000000, SI2MGAL = 100000\<rparr>"
      "[Some \<lparr>sphere_x = Fin 0, sphere_y = Fin 0, sphere_z = Fin 0, sphere_radius = Fin 1,
               sphere_props = [''magnetization'' \<mapsto> Fin 3, ''density'' \<mapsto> Fin 3]\<rparr>,
         Some \<lparr>sphere_x = Fin 5, sphere_y = Fin 5, sphere_z = Fin 5, sphere_radius = Fin 2,
               sphere_props = [''magnetization'' \<mapsto> Fin 1, ''density'' \<mapsto> Fin 2]\<rparr>]"
      "Fin 0" "Fin 0", unfolded list.map]
  show ?thesis
    by (intro conjI wf s [THEN conjunct1] s [THEN conjunct2])
qed

subsection \<open>An observation point at the centre of a source\<close>

lemma tf_centre_NaN:
  "fdiv (fmul moment (fsub (fmul (fmul (Fin 3) d) (Fin 0)) (fmul (Fin 0) m))) (Fin 0) = NaN"
  by (cases moment; cases d; cases m) (simp_all add: fsub_def signed_inf_def)

lemma gz_centre_NaN: "fdiv (fmul mass (Fin 0)) (Fin 0) = NaN"
  by (cases mass) (simp_all add: signed_inf_def)

lemma fadd_NaN [simp]: "fadd v NaN = NaN"
  by (cases v) simp_all

lemma fmul_NaN [simp]: "fmul v NaN = NaN"
  by (cases v) simp_all

lemma dipole_anomaly_centre: "dipole_anomaly f m moment (Fin 0, Fin 0, Fin 0) = NaN"
  by (cases f; cases m) (simp add: dipole_anomaly_def Let_def tf_centre_NaN)

lemma tf_contribution_centre: "at_centre s p \<Longrightarrow> tf_contribution f s mag p = NaN"
  by (simp add: at_centre_def tf_contribution_def dipole_anomaly_centre)

lemma gz_contribution_centre: "at_centre s p \<Longrightarrow> gz_contribution s density p = NaN"
  by (simp add: at_centre_def gz_contribution_def gz_centre_NaN)

lemma foldl_fadd_from_NaN: "foldl fadd NaN vs = NaN"
  by (induction vs) simp_all

lemma foldl_fadd_NaN: "NaN \<in> set vs \<Longrightarrow> foldl fadd a vs = NaN"
  by (induction vs arbitrary: a) (auto simp: foldl_fadd_from_NaN)

lemma tf_point_degenerate:
  assumes "degenerate ''magnetization'' spheres p"
  shows "tf_point K spheres inc dec p = NaN"
proof -
  from assms obtain s mag where "(s, mag) \<in> set (contributing ''magnetization'' spheres)"
    and "at_centre s p"
    by (auto simp: degenerate_def list_ex_iff)
  then have "NaN \<in> set (map (\<lambda>(s, mag). tf_contribution (dircos inc dec) s mag p)
      (contributing ''magnetization'' spheres))"
    using tf_contribution_centre [of s p "dircos inc dec" mag] by force
  then show ?thesis
    by (simp only: tf_point_def foldl_fadd_NaN fmul_NaN)
qed

lemma gz_point_degenerate:
  assumes "degenerate ''density'' spheres p"
  shows "gz_point K spheres p = NaN"
proof -
  from assms obtain s density where "(s, density) \<in> set (contributing ''density'' spheres)"
    and "at_centre s p"
    by (auto simp: degenerate_def list_ex_iff)
  then have "NaN \<in> set (map (\<lambda>(s, density). gz_contribution s density p)
      (contributing ''density'' spheres))"
    using gz_contribution_centre [of s p density] by force
  then show ?thesis
    by (simp only: gz_point_def foldl_fadd_NaN fmul_NaN)
qed

lemma pointwise_nth:
  "i < prod_list (shape xp) \<Longrightarrow> data (pointwise g xp yp zp) ! i = g (point_at xp yp zp i)"
  by (simp add: pointwise_def point_at_def)

lemma pointwise_shape: "shape (pointwise g xp yp zp) = shape xp"
  "wf_array (pointwise g xp yp zp)"
  by (simp_all add: pointwise_def wf_array_def)

text \<open>
  Claim C9. On well-formed observation arrays of one shape, \<^verbatim>\<open>tf\<close> and \<^verbatim>\<open>gz\<close> return an
  array of the shape of the inputs, also when an observation point is the centre of a
  contributing source; nothing is raised. At every such point the output is NaN (\<open>0 / 0\<close>).
  The element at each position is the field at the observation point of that position and
  depends on no other point: a value that is not finite stays at the position it arose at.
\<close>

theorem degenerate_geometry:
  assumes "wf_array xp" "wf_array yp" "wf_array zp"
    and "shape xp = shape yp" "shape yp = shape zp"
  shows "(\<exists>out. tf K xp yp zp spheres inc dec = Inr out \<and> shape out = shape xp \<and> wf_array out
            \<and> (\<forall>i < prod_list (shape xp).
                  data out ! i = tf_point K spheres inc dec (point_at xp yp zp i))
            \<and> (\<forall>i < prod_list (shape xp).
                  degenerate ''magnetization'' spheres (point_at xp yp zp i)
                    \<longrightarrow> data out ! i = NaN))
       \<and> (\<exists>out. gz K xp yp zp spheres = Inr out \<and> shape out = shape xp \<and> wf_array out
            \<and> (\<forall>i < prod_list (shape xp).
                  data out ! i = gz_point K spheres (point_at xp yp zp i))
            \<and> (\<forall>i < prod_list (shape xp).
                  degenerate ''density'' spheres (point_at xp yp zp i) \<longrightarrow> data out ! i = NaN))"
proof (intro conjI)
  let ?t = "pointwise (tf_point K spheres inc dec) xp yp zp"
  let ?g = "pointwise (gz_point K spheres) xp yp zp"
  show "\<exists>out. tf K xp yp zp spheres inc dec = Inr out \<and> shape out = shape xp \<and> wf_array out
            \<and> (\<forall>i < prod_list (shape xp).
                  data out ! i = tf_point K spheres inc dec (point_at xp yp zp i))
            \<and> (\<forall>i < prod_list (shape xp).
                  degenerate ''magnetization'' spheres (point_at xp yp zp i)
                    \<longrightarrow> data out ! i = NaN)"
  proof (intro exI [of _ ?t] conjI allI impI)
    show "tf K xp yp zp spheres inc dec = Inr ?t"
      using assms by (rule tf_closed_form)
  qed (simp_all add: pointwise_shape pointwise_nth tf_point_degenerate)
  show "\<exists>out. gz K xp yp zp spheres = Inr out \<and> shape out = shape xp \<and> wf_array out
            \<and> (\<forall>i < prod_list (shape xp).
                  data out ! i = gz_point K spheres (point_at xp yp zp i))
            \<and> (\<forall>i < prod_list (shape xp).
                  degenerate ''density'' spheres (point_at xp yp zp i) \<longrightarrow> data out ! i = NaN)"
  proof (intro exI [of _ ?g] conjI allI impI)
    show "gz K xp yp zp spheres = Inr ?g"
      using assms by (rule gz_closed_form)
  qed (simp_all add: pointwise_shape pointwise_nth gz_point_degenerate)
qed

theorem degenerate_geometry_witness:
  "wf_array \<lparr>shape = [2], data = [Fin 0, Fin 1]\<rparr>
   \<and> wf_array \<lparr>shape = [2], data = [Fin 0, Fin 0]\<rparr>
   \<and> (\<exists>out. tf \<lparr>CM = 1 / 10000000, T2NT = 1000000000, G = 6673 / 100000000000000,
                  SI2MGAL = 100000\<rparr>
          \<lparr>shape = [2], data = [Fin 0, Fin 1]\<rparr> \<lparr>shape = [2], data = [Fin 0, Fin 0]\<rparr>
          \<lparr>shape = [2], data = [Fin 0, Fin 0]\<rparr>
          [Some \<lparr>sphere_x = Fin 0, sphere_y = Fin 0, sphere_z = Fin 0, sphere_radius = Fin 1,
                 sphere_props = [''magnetization'' \<mapsto> Fin 3, ''density'' \<mapsto> Fin 3]\<rparr>]
          (Fin 0) (Fin 0) = Inr out
        \<and> shape out = [2] \<and> data out ! 0 = NaN \<and> data out ! 1 = Fin (800 * pi))
   \<and> (\<exists>out. gz \<lparr>CM = 1 / 10000000, T2NT = 1000000000, G = 6673 / 100000000000000,
                  SI2MGAL = 100000\<rparr>
          \<lparr>shape = [2], data = [Fin 0, Fin 1]\<rparr> \<lparr>shape = [2], data = [Fin 0, Fin 0]\<rparr>
          \<lparr>shape = [2], data = [Fin 0, Fin 0]\<rparr>
          [Some \<lparr>sphere_x = Fin 0, sphere_y = Fin 0, sphere_z = Fin 0, sphere_radius = Fin 1,
                 sphere_props = [''magnetization'' \<mapsto> Fin 3, ''density'' \<mapsto> Fin 3]\<rparr>]
          = Inr out
        \<and> shape out = [2] \<and> data out ! 0 = NaN \<and> data out ! 1 = Fin 0)"
proof -
  let ?K = "\<lparr>CM = 1 / 10000000, T2NT = 1000000000, G = 6673 / 100000000000000, SI2MGAL = 100000\<rparr>"
  let ?xp = "\<lparr>shape = [2], data = [Fin 0, Fin 1]\<rparr>"
  let ?yp = "\<lparr>shape = [2], data = [Fin 0, Fin 0]\<rparr>"
  let ?S = "[Some \<lparr>sphere_x = Fin 0, sphere_y = Fin 0, sphere_z = Fin 0, sphere_radius = Fin 1,
                 sphere_props = [''magnetization'' \<mapsto> Fin 3, ''density'' \<mapsto> Fin 3]\<rparr>]"
  have wx: "wf_array ?xp" and wy: "wf_array ?yp"
    by (simp_all add: wf_array_def)
  have sh: "shape ?xp = shape ?yp" "shape ?yp = shape ?yp"
    by simp_all
  have at0: "degenerate name ?S (point_at ?xp ?yp ?yp 0)"
    if "name = ''magnetization'' \<or> name = ''density''" for name
    using that by (auto simp: degenerate_def point_at_def at_centre_def centred_def fsub_def)
  have p1: "point_at ?xp ?yp ?yp 1 = (Fin 1, Fin 0, Fin 0)"
    by (simp add: point_at_def)
  have tv: "tf_point ?K ?S (Fin 0) (Fin 0) (Fin 1, Fin 0, Fin 0) = Fin (800 * pi)"
    by (simp add: eval_point dircos_zero)
  have gv: "gz_point ?K ?S (Fin 1, Fin 0, Fin 0) = Fin 0"
    by (simp add: eval_point)
  have n: "(0::nat) < prod_list (shape ?xp)" "(1::nat) < prod_list (shape ?xp)"
    by simp_all
  from degenerate_geometry [OF wx wy wy sh, of ?K ?S "Fin 0" "Fin 0"]
  obtain t g where t: "tf ?K ?xp ?yp ?yp ?S (Fin 0) (Fin 0) = Inr t" "shape t = shape ?xp"
      "\<forall>i < prod_list (shape ?xp).
         data t ! i = tf_point ?K ?S (Fin 0) (Fin 0) (point_at ?xp ?yp ?yp i)"
      "\<forall>i < prod_list (shape ?xp).
         degenerate ''magnetization'' ?S (point_at ?xp ?yp ?yp i) \<longrightarrow> data t ! i = NaN"
    and g: "gz ?K ?xp ?yp ?yp ?S = Inr g" "shape g = shape ?xp"
      "\<forall>i < prod_list (shape ?xp). data g ! i = gz_point ?K ?S (point_at ?xp ?yp ?yp i)"
      "\<forall>i < prod_list (shape ?xp).
         degenerate ''density'' ?S (point_at ?xp ?yp ?yp i) \<longrightarrow> data g ! i = NaN"
    by (elim conjE exE) blast
  from t(4) n(1) at0 have t0: "data t ! 0 = NaN" by blast
  from t(3) n(2) have t1: "data t ! 1 = Fin (800 * pi)" by (simp only: p1 tv)
  from g(4) n(1) at0 have g0: "data g ! 0 = NaN" by blast
  from g(3) n(2) have g1: "data g ! 1 = Fin 0" by (simp only: p1 gv)
  from t(1,2) t0 t1 have "\<exists>out. tf ?K ?xp ?yp ?yp ?S (Fin 0) (Fin 0) = Inr out
      \<and> shape out = [2] \<and> data out ! 0 = NaN \<and> data out ! 1 = Fin (800 * pi)"
    by simp
  moreover from g(1,2) g0 g1 have "\<exists>out. gz ?K ?xp ?yp ?yp ?S = Inr out
      \<and> shape out = [2] \<and> data out ! 0 = NaN \<and> data out ! 1 = Fin 0"
    by simp
  ultimately show ?thesis using wx wy by blast
qed

end
